theory Spec2Isabelle
  imports Main "HOL-Library.AList" "HOL-Library.Word"
begin

section \<open>Remote job states and the job watcher\<close>

text \<open>
  Python exceptions are values. The exceptions that \<^verbatim>\<open>bigflow/dataproc.py\<close> raises itself
  are plain \<^verbatim>\<open>Exception(message)\<close>; the interpreter and its library raise the other
  kinds in the operations modelled below. The
  failures of the remote services are exceptions of the client libraries; each service
  supplies its own error value. The implicit \<^verbatim>\<open>__context__\<close> link of an exception
  raised while another one is propagating is not modelled: it does not change which
  exception reaches the caller.
\<close>

datatype error =
  Exception string
  | ValueError string
  | TypeError string
  | UnicodeDecodeError string
  | OSError string
  | SyntaxError string

fun message :: "error \<Rightarrow> string" where
  "message (Exception m) = m"
| "message (ValueError m) = m"
| "message (TypeError m) = m"
| "message (UnicodeDecodeError m) = m"
| "message (OSError m) = m"
| "message (SyntaxError m) = m"

text \<open>The values of \<^verbatim>\<open>dataproc_v1.JobStatus.State\<close>.\<close>

datatype job_state =
  STATE_UNSPECIFIED | PENDING | SETUP_DONE | RUNNING | CANCEL_PENDING | CANCEL_STARTED
  | CANCELLED | DONE | ERROR | ATTEMPT_FAILURE

record job_status =
  state :: job_state
  details :: string

record job =
  status :: job_status
  driver_output_resource_uri :: string

text \<open>
  A Python \<^verbatim>\<open>dict\<close> with string keys keeps its items in insertion order; assigning to a
  key that is present keeps the key's place (\<open>AList.update\<close> does the same).
\<close>

type_synonym 'v dict = "(string \<times> 'v) list"

text \<open>The \<^verbatim>\<open>cluster_data\<close> of \<^verbatim>\<open>_create_cluster\<close>.\<close>

record cluster_data =
  cluster_name :: string
  master_num_instances :: int
  master_machine_type_uri :: string
  master_boot_disk_size_gb :: int
  worker_config_num_instances :: int
  worker_config_machine_type_uri :: string
  worker_boot_disk_size_gb :: int
  image_version :: string
  initialization_executable_file :: string
  metadata :: "string dict"

text \<open>The \<^verbatim>\<open>jobspec\<close> of \<^verbatim>\<open>_submit_single_pyspark_job\<close>.\<close>

record jobspec =
  placement_cluster_name :: string
  main_python_file_uri :: string
  jobspec_jar_file_uris :: "string list"
  python_file_uris :: "string list"
  properties :: "string dict"

text \<open>
  What the program does to the outside world, in order: the calls of the storage, cluster
  and job services, of the local build, of the serializer and of \<^verbatim>\<open>time.sleep\<close>, with
  the arguments that the program computes. Writes to the log and to standard output are
  not events.
\<close>

datatype event =
  EFindSetup
  | EStorageClient string
  | EJobClient string
  | EGetBucket string
  | EBuildEgg string
  | EUploadEgg string string
  | EPickle
  | EUploadDriver string string
  | EClusterClient string
  | ECreateCluster string string cluster_data
  | EClusterResult
  | ESubmitJob string string jobspec
  | EGetJob
  | ESleep nat
  | EDownloadBlob string
  | EDeleteCluster string string string

text \<open>
  Dicts are objects: two names can denote the same dict, so they live in a store and are
  named by references (the index in the store).
\<close>

type_synonym ref = nat

text \<open>
  The state threaded through a run: the events so far, the number of \<^verbatim>\<open>get_job\<close> calls
  made (which selects the next answer of the job service), and the store of dicts.
\<close>

record 'v world =
  events :: "event list"
  get_job_calls :: nat
  store :: "'v dict list"

definition start :: "'v dict list \<Rightarrow> 'v world" where
  "start h = \<lparr>events = [], get_job_calls = 0, store = h\<rparr>"

abbreviation empty_world :: "string world" where
  "empty_world \<equiv> start []"

text \<open>
  A computation either does not return (\<open>None\<close>), or returns a value or raises an
  exception, in a new state.
\<close>

type_synonym ('a, 'v) comp = "'v world \<Rightarrow> ((error + 'a) \<times> 'v world) option"

definition ret :: "'a \<Rightarrow> ('a, 'v) comp" where
  "ret x = (\<lambda>w. Some (Inr x, w))"

definition raise :: "error \<Rightarrow> ('a, 'v) comp" where
  "raise e = (\<lambda>w. Some (Inl e, w))"

text \<open>Sequencing: an exception of the first statement skips the rest.\<close>

definition bind :: "('a, 'v) comp \<Rightarrow> ('a \<Rightarrow> ('b, 'v) comp) \<Rightarrow> ('b, 'v) comp" where
  "bind m f = (\<lambda>w. case m w of
       None \<Rightarrow> None
     | Some (Inl e, w') \<Rightarrow> Some (Inl e, w')
     | Some (Inr x, w') \<Rightarrow> f x w')"

text \<open>
  \<^verbatim>\<open>try: m finally: fin\<close>. The \<^verbatim>\<open>finally\<close> block runs whether \<open>m\<close> returned or raised.
  When the block raises, its exception is the one that propagates, also when \<open>m\<close> had
  raised; otherwise the outcome of \<open>m\<close> stands.
\<close>

definition try_finally :: "('a, 'v) comp \<Rightarrow> (unit, 'v) comp \<Rightarrow> ('a, 'v) comp" where
  "try_finally m fin = (\<lambda>w. case m w of
       None \<Rightarrow> None
     | Some (r, w1) \<Rightarrow>
         (case fin w1 of
            None \<Rightarrow> None
          | Some (Inl e, w2) \<Rightarrow> Some (Inl e, w2)
          | Some (Inr u, w2) \<Rightarrow> Some (r, w2)))"

definition emit :: "event \<Rightarrow> 'v world \<Rightarrow> 'v world" where
  "emit ev w = w\<lparr>events := events w @ [ev]\<rparr>"

text \<open>A call of an external service: the event is recorded, the outcome is the service's.\<close>

definition call :: "event \<Rightarrow> error + 'a \<Rightarrow> ('a, 'v) comp" where
  "call ev outcome = (\<lambda>w. Some (outcome, emit ev w))"

definition polled :: "'v world \<Rightarrow> 'v world" where
  "polled w = (emit EGetJob w)\<lparr>get_job_calls := Suc (get_job_calls w)\<rparr>"

text \<open>
  \<^verbatim>\<open>_wait_for_job_to_finish\<close>: the \<^verbatim>\<open>while True\<close> loop. The argument \<open>get_job\<close>
  gives the answer of the n-th \<^verbatim>\<open>get_job\<close> call, which is a job or an exception of the
  client. A loop that never leaves has the value \<open>None\<close>.
\<close>

partial_function (option) wait_for_job_to_finish ::
  "(nat \<Rightarrow> error + job) \<Rightarrow> (job, 'v) comp"
where
  "wait_for_job_to_finish get_job w =
     (case get_job (get_job_calls w) of
        Inl e \<Rightarrow> Some (Inl e, polled w)
      | Inr j \<Rightarrow>
          if state (status j) = DONE then Some (Inr j, polled w)
          else if state (status j) = ERROR then
            Some (Inl (Exception (details (status j))), polled w)
          else if state (status j) = CANCELLED then
            Some (Inl (Exception ''Job was CANCELLED''), polled w)
          else wait_for_job_to_finish get_job (emit (ESleep 5) (polled w)))"

declare wait_for_job_to_finish.simps [code]

text \<open>
  The same loop with a bound on the number of rounds, to speak of the state of a run that
  is still in the loop: after \<open>k\<close> rounds the loop has either left (with its outcome) or
  is about to poll again (\<open>None\<close>).
\<close>

fun wait_rounds ::
  "nat \<Rightarrow> (nat \<Rightarrow> error + job) \<Rightarrow> 'v world \<Rightarrow> (error + job) option \<times> 'v world"
where
  "wait_rounds 0 get_job w = (None, w)"
| "wait_rounds (Suc k) get_job w =
     (case get_job (get_job_calls w) of
        Inl e \<Rightarrow> (Some (Inl e), polled w)
      | Inr j \<Rightarrow>
          if state (status j) = DONE then (Some (Inr j), polled w)
          else if state (status j) = ERROR then
            (Some (Inl (Exception (details (status j)))), polled w)
          else if state (status j) = CANCELLED then
            (Some (Inl (Exception ''Job was CANCELLED'')), polled w)
          else wait_rounds k get_job (emit (ESleep 5) (polled w)))"

subsection \<open>Vocabulary for the watcher's properties\<close>

text \<open>The three states at which the loop of \<^verbatim>\<open>_wait_for_job_to_finish\<close> leaves.\<close>

definition terminal :: "job_state \<Rightarrow> bool" where
  "terminal s = (s = DONE \<or> s = ERROR \<or> s = CANCELLED)"

text \<open>An answer of \<^verbatim>\<open>get_job\<close> at which the loop leaves: an exception of the client, or a
  job in a terminal state.\<close>

fun stops :: "error + job \<Rightarrow> bool" where
  "stops (Inl e) = True"
| "stops (Inr j) = terminal (state (status j))"

text \<open>What the loop body does with an answer at which it leaves (the three branches of the
  \<^verbatim>\<open>if\<close>/\<^verbatim>\<open>elif\<close> chain, and the exception of the call itself).\<close>

fun watch_result :: "error + job \<Rightarrow> error + job" where
  "watch_result (Inl e) = Inl e"
| "watch_result (Inr j) =
     (if state (status j) = DONE then Inr j
      else if state (status j) = ERROR then Inl (Exception (details (status j)))
      else Inl (Exception ''Job was CANCELLED''))"

text \<open>The events of \<open>n\<close> rounds that did not leave: a poll, then \<^verbatim>\<open>time.sleep(5)\<close>.\<close>

fun polling :: "nat \<Rightarrow> event list" where
  "polling 0 = []"
| "polling (Suc n) = EGetJob # ESleep 5 # polling n"

text \<open>Index \<open>n\<close> is the first poll whose status is terminal.\<close>

definition first_terminal :: "(nat \<Rightarrow> job) \<Rightarrow> nat \<Rightarrow> bool" where
  "first_terminal jobs n =
     ((\<forall>i\<in>{0..<n}. \<not> terminal (state (status (jobs i)))) \<and> terminal (state (status (jobs n))))"

text \<open>A job service that answers RUNNING twice and then ERROR with details \<^verbatim>\<open>boom\<close>.\<close>

definition boom_jobs :: "nat \<Rightarrow> job" where
  "boom_jobs i =
     (if i < 2 then \<lparr>status = \<lparr>state = RUNNING, details = ''''\<rparr>, driver_output_resource_uri = ''gs://b/out''\<rparr>
      else \<lparr>status = \<lparr>state = ERROR, details = ''boom''\<rparr>, driver_output_resource_uri = ''gs://b/out''\<rparr>)"

text \<open>Index \<open>n\<close> is the first poll at which the loop leaves.\<close>

definition first_stop :: "(nat \<Rightarrow> error + job) \<Rightarrow> nat \<Rightarrow> bool" where
  "first_stop get_job n = ((\<forall>i\<in>{0..<n}. \<not> stops (get_job i)) \<and> stops (get_job n))"

text \<open>A job service that answers RUNNING once and then fails with an exception of the client.\<close>

definition flaky_jobs :: "nat \<Rightarrow> error + job" where
  "flaky_jobs i =
     (if i = 0 then Inr \<lparr>status = \<lparr>state = RUNNING, details = []\<rparr>, driver_output_resource_uri = ''gs://b/out''\<rparr>
      else Inl (Exception ''503 unavailable''))"

text \<open>A job service that answers PENDING, RUNNING, RUNNING and then DONE.\<close>

definition done_jobs :: "nat \<Rightarrow> error + job" where
  "done_jobs i =
     Inr \<lparr>status = \<lparr>state = (if i = 0 then PENDING else if i < 3 then RUNNING else DONE), details = []\<rparr>,
          driver_output_resource_uri = ''gs://b/out''\<rparr>"

section \<open>The job descriptor\<close>

text \<open>
  \<^verbatim>\<open>class PySparkJob\<close>. The callable is opaque (type \<open>'f\<close>); \<^verbatim>\<open>driver_arguments\<close> is a
  reference to a dict in the store. The field \<^verbatim>\<open>id\<close> is written \<open>id'\<close>.
\<close>

record 'f PySparkJob =
  id' :: string
  driver_filename :: string
  driver_callable :: 'f
  driver_arguments :: ref
  bucket_id :: string
  gcp_project_id :: string
  gcp_region :: string
  env :: string
  jar_file_uris :: "string list"
  worker_machine_type :: string
  worker_num_instances :: int
  pip_packages :: "string list"
  setup_file :: "string option"
  project :: "string option"
  any_file_inside_project :: "string option"




text \<open>Truth value of an optional string: \<^verbatim>\<open>None\<close> and the empty string are false.\<close>

fun truthy :: "string option \<Rightarrow> bool" where
  "truthy None = False"
| "truthy (Some s) = (s \<noteq> [])"

text \<open>\<^verbatim>\<open>env or bigflow.configuration.current_env() or 'none'\<close>\<close>

fun env_or_current_or_none :: "string option \<Rightarrow> string option \<Rightarrow> string" where
  "env_or_current_or_none (Some e) c =
     (if e \<noteq> [] then e else (case c of Some s \<Rightarrow> (if s \<noteq> [] then s else ''none'') | None \<Rightarrow> ''none''))"
| "env_or_current_or_none None c =
     (case c of Some s \<Rightarrow> (if s \<noteq> [] then s else ''none'') | None \<Rightarrow> ''none'')"




subsection \<open>The internal run id\<close>

definition ascii_lowercase :: string where
  "ascii_lowercase = ''abcdefghijklmnopqrstuvwxyz''"

definition ascii_uppercase :: string where
  "ascii_uppercase = ''ABCDEFGHIJKLMNOPQRSTUVWXYZ''"

definition digits :: string where
  "digits = ''0123456789''"

text \<open>
  Text is a list of bytes (UTF-8). What the Python runtime does beyond ASCII or depending
  on the platform is a parameter: the Unicode case mapping of \<^verbatim>\<open>str.lower\<close> on text with
  non-ASCII characters, the text of \<^verbatim>\<open>%Y\<close> for a year below 1000 (four digits with leading
  zeros or not, by platform and version), and whether bytes decode as UTF-8.
\<close>

record python_runtime =
  str_lower_non_ascii :: "string \<Rightarrow> string"
  strftime_year_below_1000 :: "nat \<Rightarrow> string"
  decodes_as_utf8 :: "string \<Rightarrow> bool"

definition is_ascii :: "char \<Rightarrow> bool" where
  "is_ascii c = (\<not> digit7 c)"

text \<open>\<^verbatim>\<open>str.lower\<close>: on ASCII text the letters A to Z are mapped and nothing else.\<close>

definition lower_char :: "char \<Rightarrow> char" where
  "lower_char c = (case map_of (zip ascii_uppercase ascii_lowercase) c of Some l \<Rightarrow> l | None \<Rightarrow> c)"

definition lower :: "python_runtime \<Rightarrow> string \<Rightarrow> string" where
  "lower py s = (if list_all is_ascii s then map lower_char s else str_lower_non_ascii py s)"

text \<open>
  \<^verbatim>\<open>random.choices(population, k=k)\<close> takes, for each of the \<open>k\<close> places, the item at
  index \<open>floor(random() * n)\<close>, an index below the size \<open>n\<close> of the population. The random
  source is the parameter \<open>rnd\<close>: draw \<open>i\<close> selects the index \<open>rnd i mod n\<close>.
\<close>

definition choices :: "'a list \<Rightarrow> nat \<Rightarrow> (nat \<Rightarrow> nat) \<Rightarrow> 'a list" where
  "choices population k rnd = map (\<lambda>i. population ! (rnd i mod length population)) [0..<k]"

text \<open>A point in time as \<^verbatim>\<open>datetime.datetime.now()\<close> gives it, to the second.\<close>

record datetime =
  year :: nat
  month :: nat
  day :: nat
  hour :: nat
  minute :: nat
  second :: nat


text \<open>Decimal numerals; \<open>pad2\<close> is the two-digit, zero-padded form of \<^verbatim>\<open>%m %d %H %M %S\<close>.\<close>

fun decimal :: "nat \<Rightarrow> string" where
  "decimal n = (if n < 10 then [digits ! n] else decimal (n div 10) @ [digits ! (n mod 10)])"

definition pad2 :: "nat \<Rightarrow> string" where
  "pad2 n = (if n < 10 then CHR ''0'' # decimal n else decimal n)"

text \<open>\<^verbatim>\<open>strftime("%Y-%m-%d-%H%M%S")\<close>; \<^verbatim>\<open>%Y\<close> is the year in decimal.\<close>

definition strftime :: "python_runtime \<Rightarrow> datetime \<Rightarrow> string" where
  "strftime py t =
     (if year t < 1000 then strftime_year_below_1000 py (year t) else decimal (year t))
       @ ''-'' @ pad2 (month t) @ ''-'' @ pad2 (day t) @ ''-''
       @ pad2 (hour t) @ pad2 (minute t) @ pad2 (second t)"

text \<open>
  \<^verbatim>\<open>PySparkJob._generate_internal_jobid\<close>. The clock and the random source are
  parameters. The argument \<^verbatim>\<open>runtime\<close> is not used by the source.
\<close>

definition generate_internal_jobid ::
  "python_runtime \<Rightarrow> 'f PySparkJob \<Rightarrow> datetime \<Rightarrow> (nat \<Rightarrow> nat) \<Rightarrow> string"
where
  "generate_internal_jobid py j now rnd =
     (let job_random_suffix = choices (ascii_lowercase @ digits) 10 rnd;
          job_timestamp = strftime py now
      in lower py (id' j) @ ''-'' @ (if env j \<noteq> [] then env j else ''none'') @ ''-''
           @ job_timestamp @ ''-'' @ job_random_suffix)"

subsection \<open>Spark properties and the driver wrapper\<close>

text \<open>\<^verbatim>\<open>PySparkJob._prepare_pyspark_properties\<close>\<close>

definition prepare_pyspark_properties :: "'f PySparkJob \<Rightarrow> string dict" where
  "prepare_pyspark_properties j =
     (let ps = [(''spark.app.name'', id' j)]
      in if env j \<noteq> [] then
           AList.update ''spark.executorEnv.bf_env'' (env j)
             (AList.update ''spark.workerEnv.bf_env'' (env j) ps)
         else ps)"

text \<open>\<^verbatim>\<open>class _PySparkDriverWrapper\<close>; \<^verbatim>\<open>kwargs\<close> is a reference to a dict.\<close>

record ('f, 'v) PySparkDriverWrapper =
  callable :: 'f
  args :: "'v list"
  kwargs :: ref
  envs :: "string dict"

text \<open>
  \<^verbatim>\<open>PySparkJob._prepare_driver_callable\<close>: \<^verbatim>\<open>dict(self.driver_arguments)\<close> allocates a
  new dict with the same items, and the assignment of \<^verbatim>\<open>'runtime'\<close> goes to the new dict.
\<close>

definition prepare_driver_callable ::
  "'f PySparkJob \<Rightarrow> 'v \<Rightarrow> 'v dict list \<Rightarrow> ('f, 'v) PySparkDriverWrapper \<times> 'v dict list"
where
  "prepare_driver_callable j runtime h =
     (let kwargs_ref = length h;
          h1 = h @ [h ! driver_arguments j];
          h2 = h1[kwargs_ref := AList.update ''runtime'' runtime (h1 ! kwargs_ref)];
          the_envs = (if env j \<noteq> [] then AList.update ''env'' (env j) [] else [])
      in (\<lparr>callable = driver_callable j, args = [], kwargs = kwargs_ref, envs = the_envs\<rparr>, h2))"

text \<open>
  A call of the user's callable as the program makes it: which callable, with which
  positional and keyword arguments, under which process environment. What the callable
  then does is outside the program.
\<close>

record ('f, 'v) invocation =
  inv_callable :: 'f
  inv_args :: "'v list"
  inv_kwargs :: "'v dict"
  inv_environ :: "string dict"

text \<open>
  \<^verbatim>\<open>os.environ[k] = v\<close>: the variable is set in the process (\<^verbatim>\<open>putenv\<close>). A NUL byte
  in the name or the value, and an equals sign in the name, raise \<^verbatim>\<open>ValueError\<close>; an
  empty name is refused by the operating system.
\<close>

definition environ_setitem :: "string dict \<Rightarrow> string \<Rightarrow> string \<Rightarrow> error + string dict" where
  "environ_setitem environ k v =
     (if CHR 0x00 \<in> set k \<or> CHR 0x00 \<in> set v then Inl (ValueError ''embedded null byte'')
      else if CHR ''='' \<in> set k then Inl (ValueError ''illegal environment variable name'')
      else if k = [] then Inl (OSError ''[Errno 22] Invalid argument'')
      else Inr (AList.update k v environ))"

text \<open>
  \<^verbatim>\<open>os.environ.update(envs)\<close>: each item is assigned in turn; an exception leaves the
  items assigned before it in place.
\<close>

fun environ_update :: "string dict \<Rightarrow> string dict \<Rightarrow> error option \<times> string dict" where
  "environ_update environ [] = (None, environ)"
| "environ_update environ ((k, v) # es) =
     (case environ_setitem environ k v of
        Inl e \<Rightarrow> (Some e, environ)
      | Inr environ' \<Rightarrow> environ_update environ' es)"

text \<open>
  \<^verbatim>\<open>_PySparkDriverWrapper.__call__\<close>: the environment is updated, then the callable is
  invoked. The result is the invocation made, or the exception of the update (the
  callable is then not invoked), and the process environment afterwards.
\<close>

definition wrapper_call ::
  "('f, 'v) PySparkDriverWrapper \<Rightarrow> 'v dict list \<Rightarrow> string dict
     \<Rightarrow> (error + ('f, 'v) invocation) \<times> string dict"
where
  "wrapper_call d h environ =
     (case environ_update environ (envs d) of
        (Some e, environ') \<Rightarrow> (Inl e, environ')
      | (None, environ') \<Rightarrow>
          (Inr \<lparr>inv_callable = callable d, inv_args = args d, inv_kwargs = h ! kwargs d,
                inv_environ = environ'\<rparr>,
           environ'))"

declare decimal.simps [simp del]

section \<open>The driver script\<close>

subsection \<open>Base85, as \<^verbatim>\<open>base64.b85encode\<close> and \<^verbatim>\<open>base64.b85decode\<close> compute it\<close>

text \<open>Bytes are characters; \<open>of_char\<close> and \<open>char_of\<close> give and take the byte value.\<close>

definition b85chars :: string where
  "b85chars = ''0123456789ABCDEFGHIJKLMNOPQRSTUVWXYZabcdefghijklmnopqrstuvwxyz!#$%&()*+-;<=>?@^_`{|}~''"

text \<open>The table of two-character groups, \<^verbatim>\<open>[(a + b) for a in chars for b in chars]\<close>.\<close>

definition b85chars2 :: "nat \<Rightarrow> string" where
  "b85chars2 k = [b85chars ! (k div 85), b85chars ! (k mod 85)]"

text \<open>Big-endian 32-bit words of a byte string whose length is a multiple of four.\<close>

fun unpack_words :: "string \<Rightarrow> nat list" where
  "unpack_words (a # b # c # d # r) =
     (((of_char a * 256 + of_char b) * 256 + of_char c) * 256 + of_char d) # unpack_words r"
| "unpack_words r = []"

definition encode_word :: "nat \<Rightarrow> string" where
  "encode_word word =
     b85chars2 (word div 614125) @ b85chars2 (word div 85 mod 7225) @ [b85chars ! (word mod 85)]"

definition b85encode :: "string \<Rightarrow> string" where
  "b85encode b =
     (let padding = (4 - length b mod 4) mod 4;
          chunks = map encode_word (unpack_words (b @ replicate padding (CHR 0x00)))
      in if padding \<noteq> 0 then concat (butlast chunks) @ take (5 - padding) (last chunks)
         else concat chunks)"

text \<open>The decoding table: the place of a character in the alphabet, if it has one.\<close>

definition b85dec :: "char \<Rightarrow> nat option" where
  "b85dec c = map_of (zip b85chars [0..<85]) c"

fun accumulate :: "nat \<Rightarrow> string \<Rightarrow> nat option" where
  "accumulate acc [] = Some acc"
| "accumulate acc (c # cs) =
     (case b85dec c of None \<Rightarrow> None | Some d \<Rightarrow> accumulate (acc * 85 + d) cs)"

definition pack_word :: "nat \<Rightarrow> string" where
  "pack_word acc =
     [char_of (acc div 16777216), char_of (acc div 65536 mod 256), char_of (acc div 256 mod 256),
      char_of (acc mod 256)]"

text \<open>
  The loop over the hunks of five characters; \<open>i\<close> is the offset of the hunk. A character
  outside the alphabet and a hunk whose value does not fit 32 bits raise \<^verbatim>\<open>ValueError\<close>.
\<close>

fun decode_hunks :: "nat \<Rightarrow> string \<Rightarrow> error + string" where
  "decode_hunks i (c0 # c1 # c2 # c3 # c4 # r) =
     (let chunk = [c0, c1, c2, c3, c4]
      in case accumulate 0 chunk of
           None \<Rightarrow>
             Inl (ValueError (''bad base85 character at position ''
                    @ decimal (i + length (takeWhile (\<lambda>c. b85dec c \<noteq> None) chunk))))
         | Some acc \<Rightarrow>
             if acc \<ge> 4294967296 then
               Inl (ValueError (''base85 overflow in hunk starting at byte '' @ decimal i))
             else (case decode_hunks (i + 5) r of
                     Inl e \<Rightarrow> Inl e
                   | Inr out \<Rightarrow> Inr (pack_word acc @ out)))"
| "decode_hunks i r = Inr []"

definition b85decode :: "string \<Rightarrow> error + string" where
  "b85decode b =
     (let padding = (5 - length b mod 5) mod 5
      in case decode_hunks 0 (b @ replicate padding (CHR ''~'')) of
           Inl e \<Rightarrow> Inl e
         | Inr result \<Rightarrow>
             Inr (if padding \<noteq> 0 then take (length result - padding) result else result))"

subsection \<open>Generating the script\<close>

text \<open>
  What is pickled is the wrapper with the dict it refers to: the work unit, by value.
\<close>

record ('f, 'v) work_unit =
  wu_callable :: 'f
  wu_args :: "'v list"
  wu_kwargs :: "'v dict"
  wu_envs :: "string dict"

definition work_unit_of :: "('f, 'v) PySparkDriverWrapper \<Rightarrow> 'v dict list \<Rightarrow> ('f, 'v) work_unit" where
  "work_unit_of d h =
     \<lparr>wu_callable = callable d, wu_args = args d, wu_kwargs = h ! kwargs d, wu_envs = envs d\<rparr>"

text \<open>
  The class \<^verbatim>\<open>_PySparkDriverWrapper\<close> has no \<^verbatim>\<open>__repr__\<close> of its own, so \<^verbatim>\<open>{callable!r}\<close>
  is the default text of an object, with the address of the object in hexadecimal.
\<close>

fun hexadecimal :: "nat \<Rightarrow> string" where
  "hexadecimal n =
     (if n < 16 then [''0123456789abcdef'' ! n]
      else hexadecimal (n div 16) @ [''0123456789abcdef'' ! (n mod 16)])"

definition wrapper_repr :: "nat \<Rightarrow> string" where
  "wrapper_repr address =
     ''<bigflow.dataproc._PySparkDriverWrapper object at 0x'' @ hexadecimal address @ ''>''"

definition newline :: char where
  "newline = CHR 0x0A"

definition quote :: char where
  "quote = CHR 0x27"

definition backslash :: char where
  "backslash = CHR 0x5C"

text \<open>
  The text of a bytes object whose bytes are all in the Base85 alphabet: the bytes
  themselves between single quotes, after \<^verbatim>\<open>b\<close>.
\<close>

definition bytes_repr :: "string \<Rightarrow> string" where
  "bytes_repr b = CHR ''b'' # quote # b @ [quote]"

definition join_lines :: "string list \<Rightarrow> string" where
  "join_lines ls = concat (map (\<lambda>l. l @ [newline]) ls)"

text \<open>
  \<^verbatim>\<open>generate_driver_script\<close>, with the pickled bytes as argument. \<^verbatim>\<open>textwrap.dedent\<close>
  takes the margin of eight blanks from every line and empties the lines that hold only
  blanks; the two interpolated texts have no line break.
\<close>

definition driver_script :: "nat \<Rightarrow> string \<Rightarrow> string" where
  "driver_script address pickled =
     join_lines
       [[],
        [],
        ''# Generated by `bigflow.dataproc.generate_and_upload_driver`'',
        ''import pickle, base64'',
        [],
        ''# unpickle'' @ [quote] @ ''n'' @ [quote] @ ''call '' @ wrapper_repr address,
        ''data = '' @ bytes_repr (b85encode pickled),
        [],
        ''call = pickle.loads(base64.b85decode(data))'',
        ''call()'',
        []]"

subsection \<open>Running the script\<close>

text \<open>
  The remote interpreter, for scripts of this shape: blank lines and comment lines are
  skipped; the four statements import the modules, bind \<^verbatim>\<open>data\<close> to a bytes literal,
  decode and unpickle it, and call the result with no arguments. A bytes literal with a
  quote or a backslash inside, and any other script, are outside this interpreter.
\<close>

fun split_lines :: "string \<Rightarrow> string list" where
  "split_lines [] = []"
| "split_lines (c # cs) =
     (if c = newline then [] # split_lines cs
      else (case split_lines cs of [] \<Rightarrow> [[c]] | l # ls \<Rightarrow> (c # l) # ls))"

definition statements :: "string \<Rightarrow> string list" where
  "statements script = filter (\<lambda>l. l \<noteq> [] \<and> hd l \<noteq> CHR ''#'') (split_lines script)"

definition parse_data_statement :: "string \<Rightarrow> string option" where
  "parse_data_statement l =
     (if take 9 l = ''data = b'' @ [quote] \<and> 10 \<le> length l \<and> last l = quote then
        (let lit = butlast (drop 9 l)
         in if quote \<in> set lit \<or> backslash \<in> set lit then None else Some lit)
      else None)"

text \<open>Unpickling builds the wrapper and its dict anew, in the store of the remote process.\<close>

definition materialize ::
  "('f, 'v) work_unit \<Rightarrow> 'v dict list \<Rightarrow> ('f, 'v) PySparkDriverWrapper \<times> 'v dict list"
where
  "materialize u h =
     (\<lparr>callable = wu_callable u, args = wu_args u, kwargs = length h, envs = wu_envs u\<rparr>,
      h @ [wu_kwargs u])"

definition run_driver_script ::
  "(string \<Rightarrow> error + ('f, 'v) work_unit) \<Rightarrow> string \<Rightarrow> 'v dict list \<Rightarrow> string dict
     \<Rightarrow> (error + ('f, 'v) invocation) \<times> string dict"
where
  "run_driver_script pickle_loads script h environ =
     (case statements script of
        [s1, s2, s3, s4] \<Rightarrow>
          if s1 = ''import pickle, base64''
             \<and> s3 = ''call = pickle.loads(base64.b85decode(data))'' \<and> s4 = ''call()''
          then
            (case parse_data_statement s2 of
               None \<Rightarrow> (Inl (SyntaxError ''unsupported statement''), environ)
             | Some data \<Rightarrow>
                 (case b85decode data of
                    Inl e \<Rightarrow> (Inl e, environ)
                  | Inr pickled \<Rightarrow>
                      (case pickle_loads pickled of
                         Inl e \<Rightarrow> (Inl e, environ)
                       | Inr u \<Rightarrow>
                           (let (d, h') = materialize u h in wrapper_call d h' environ))))
          else (Inl (SyntaxError ''unsupported statement''), environ)
      | _ \<Rightarrow> (Inl (SyntaxError ''unsupported script''), environ))"

declare hexadecimal.simps [simp del]

section \<open>The run\<close>

text \<open>
  The collaborators of a run, by the outcome of each call: the Python runtime, the clock,
  the random source, the address of the wrapper object, the setup-file finder, the
  storage client and its bucket and blobs, the local build of the egg (the whole of
  \<^verbatim>\<open>_build_project_egg\<close>, which runs a process and resolves paths), the pickler, and the
  cluster and job services. An outcome is a value or the exception that the call raises;
  the job service answers the \<open>n\<close>-th \<^verbatim>\<open>get_job\<close> call with \<open>get_job_result n\<close>.
\<close>

record ('f, 'v) services =
  python :: python_runtime
  clock :: datetime
  random_draws :: "nat \<Rightarrow> nat"
  wrapper_address :: nat
  find_or_create_setup_result :: "error + string"
  storage_client_result :: "error + unit"
  job_client_result :: "error + unit"
  get_bucket_result :: "error + unit"
  build_project_egg_result :: "error + string"
  upload_egg_result :: "error + unit"
  pickle_dumps_result :: "('f, 'v) work_unit \<Rightarrow> error + string"
  upload_driver_result :: "error + unit"
  cluster_client_result :: "error + unit"
  create_cluster_result :: "error + unit"
  cluster_future_result :: "error + unit"
  submit_job_result :: "error + string"
  get_job_result :: "nat \<Rightarrow> error + job"
  download_blob_result :: "string \<Rightarrow> error + string"
  delete_cluster_result :: "error + unit"

text \<open>\<^verbatim>\<open>PySparkJob._ensure_has_setup_file\<close>; the result is the descriptor as updated.\<close>

definition ensure_has_setup_file ::
  "'f PySparkJob \<Rightarrow> ('f, 'v) services \<Rightarrow> ('f PySparkJob, 'v) comp"
where
  "ensure_has_setup_file j sv =
     (if truthy (setup_file j) then ret j
      else bind (call EFindSetup (find_or_create_setup_result sv))
             (\<lambda>s. ret (j\<lparr>setup_file := Some s\<rparr>)))"

definition api_endpoint :: "'f PySparkJob \<Rightarrow> string" where
  "api_endpoint j = gcp_region j @ ''-dataproc.googleapis.com:443''"

text \<open>\<^verbatim>\<open>_prepare_driver_callable\<close> in the state of the run.\<close>

definition prepare_driver_callable_in_run ::
  "'f PySparkJob \<Rightarrow> 'v \<Rightarrow> (('f, 'v) PySparkDriverWrapper, 'v) comp"
where
  "prepare_driver_callable_in_run j runtime =
     (\<lambda>w. let (d, h') = prepare_driver_callable j runtime (store w)
          in Some (Inr d, w\<lparr>store := h'\<rparr>))"

text \<open>
  \<^verbatim>\<open>_build_project_egg(self.setup_file)\<close>; \<^verbatim>\<open>pathlib.Path(None)\<close> raises
  \<^verbatim>\<open>TypeError\<close>.
\<close>

definition build_project_egg ::
  "string option \<Rightarrow> ('f, 'v) services \<Rightarrow> (string, 'v) comp"
where
  "build_project_egg f sv =
     (case f of
        None \<Rightarrow> raise (TypeError ''expected str, bytes or os.PathLike object, not NoneType'')
      | Some file \<Rightarrow> call (EBuildEgg file) (build_project_egg_result sv))"

text \<open>
  \<^verbatim>\<open>pathlib.Path(p).name\<close>: the last component of the path; empty components and
  single dots are not components.
\<close>

fun split_on :: "char \<Rightarrow> string \<Rightarrow> string list" where
  "split_on sep [] = [[]]"
| "split_on sep (c # cs) =
     (if c = sep then [] # split_on sep cs
      else (case split_on sep cs of [] \<Rightarrow> [[c]] | l # ls \<Rightarrow> (c # l) # ls))"

definition path_name :: "string \<Rightarrow> string" where
  "path_name p =
     (case filter (\<lambda>c. c \<noteq> [] \<and> c \<noteq> ''.'') (split_on (CHR ''/'') p) of
        [] \<Rightarrow> []
      | cs \<Rightarrow> last cs)"

text \<open>\<^verbatim>\<open>_upload_egg\<close>\<close>

definition upload_egg :: "string \<Rightarrow> string \<Rightarrow> ('f, 'v) services \<Rightarrow> (string, 'v) comp" where
  "upload_egg egg_local_path job_internal_id sv =
     (let egg_path = job_internal_id @ ''/'' @ path_name egg_local_path
      in bind (call (EUploadEgg egg_path egg_local_path) (upload_egg_result sv))
           (\<lambda>_. ret egg_path))"

text \<open>\<^verbatim>\<open>generate_driver_script\<close>: \<^verbatim>\<open>pickle.dumps\<close>, then the text.\<close>

definition generate_driver_script ::
  "('f, 'v) PySparkDriverWrapper \<Rightarrow> ('f, 'v) services \<Rightarrow> (string, 'v) comp"
where
  "generate_driver_script d sv =
     bind (\<lambda>w. call EPickle (pickle_dumps_result sv (work_unit_of d (store w))) w)
       (\<lambda>pickled. ret (driver_script (wrapper_address sv) pickled))"

text \<open>\<^verbatim>\<open>generate_and_upload_driver\<close>\<close>

definition generate_and_upload_driver ::
  "('f, 'v) PySparkDriverWrapper \<Rightarrow> string \<Rightarrow> ('f, 'v) services \<Rightarrow> (unit, 'v) comp"
where
  "generate_and_upload_driver d driver_path sv =
     bind (generate_driver_script d sv)
       (\<lambda>script. call (EUploadDriver driver_path script) (upload_driver_result sv))"

text \<open>\<^verbatim>\<open>" ".join(filter(None, requirements))\<close>\<close>

fun join :: "string \<Rightarrow> string list \<Rightarrow> string" where
  "join sep [] = []"
| "join sep [x] = x"
| "join sep (x # y # xs) = x @ sep @ join sep (y # xs)"

text \<open>The \<^verbatim>\<open>cluster_data\<close> that \<^verbatim>\<open>_create_cluster\<close> builds.\<close>

definition cluster_data_for :: "string \<Rightarrow> string \<Rightarrow> string list \<Rightarrow> int \<Rightarrow> string \<Rightarrow> cluster_data" where
  "cluster_data_for region name requirements num_instances machine_type =
     (let packages = join '' '' (filter (\<lambda>r. r \<noteq> []) requirements)
      in \<lparr>cluster_name = name,
          master_num_instances = 1,
          master_machine_type_uri = ''n1-standard-4'',
          master_boot_disk_size_gb = 100,
          worker_config_num_instances = num_instances,
          worker_config_machine_type_uri = machine_type,
          worker_boot_disk_size_gb = 100,
          image_version = ''1.5'',
          initialization_executable_file =
            ''gs://goog-dataproc-initialization-actions-'' @ region @ ''/python/pip-install.sh'',
          metadata = [(''PIP_PACKAGES'', packages)]\<rparr>)"

text \<open>\<^verbatim>\<open>_create_cluster\<close>: the request, then the wait for the operation.\<close>

definition create_cluster ::
  "string \<Rightarrow> string \<Rightarrow> string \<Rightarrow> string list \<Rightarrow> int \<Rightarrow> string \<Rightarrow> ('f, 'v) services
     \<Rightarrow> (string, 'v) comp"
where
  "create_cluster project_id region name requirements num_instances machine_type sv =
     (let data = cluster_data_for region name requirements num_instances machine_type
      in bind (call (ECreateCluster project_id region data) (create_cluster_result sv))
           (\<lambda>_. bind (call EClusterResult (cluster_future_result sv)) (\<lambda>_. ret name)))"

text \<open>\<^verbatim>\<open>_delete_cluster\<close>\<close>

definition delete_cluster ::
  "string \<Rightarrow> string \<Rightarrow> string \<Rightarrow> ('f, 'v) services \<Rightarrow> (unit, 'v) comp"
where
  "delete_cluster project_id region cluster sv =
     call (EDeleteCluster project_id region cluster) (delete_cluster_result sv)"

text \<open>
  \<^verbatim>\<open>PySparkJob._with_temp_cluster\<close> around the body of the \<^verbatim>\<open>with\<close> statement. The
  client is made before the \<^verbatim>\<open>try\<close>. The body runs at the \<^verbatim>\<open>yield\<close>, inside the
  \<^verbatim>\<open>try\<close>: an exception of the body is raised there, so the \<^verbatim>\<open>finally\<close> block runs
  after the body however it ends, and also when the creation raises.
\<close>

definition with_temp_cluster ::
  "'f PySparkJob \<Rightarrow> string \<Rightarrow> ('f, 'v) services \<Rightarrow> (string \<Rightarrow> ('a, 'v) comp) \<Rightarrow> ('a, 'v) comp"
where
  "with_temp_cluster j name sv body =
     bind (call (EClusterClient (api_endpoint j)) (cluster_client_result sv))
       (\<lambda>_. try_finally
              (bind (create_cluster (gcp_project_id j) (gcp_region j) name (pip_packages j)
                       (worker_num_instances j) (worker_machine_type j) sv)
                 body)
              (delete_cluster (gcp_project_id j) (gcp_region j) name sv))"

text \<open>\<^verbatim>\<open>_submit_single_pyspark_job\<close>; the result is the id of the job.\<close>

definition submit_single_pyspark_job ::
  "string \<Rightarrow> string \<Rightarrow> string \<Rightarrow> string \<Rightarrow> string \<Rightarrow> string \<Rightarrow> string list \<Rightarrow> string dict
     \<Rightarrow> ('f, 'v) services \<Rightarrow> (string, 'v) comp"
where
  "submit_single_pyspark_job project_id region name bucket driver_path egg_path jars props sv =
     (let spec =
            \<lparr>placement_cluster_name = name,
             main_python_file_uri = ''gs://'' @ bucket @ ''/'' @ driver_path,
             jobspec_jar_file_uris = jars,
             python_file_uris = [''gs://'' @ bucket @ ''/'' @ egg_path],
             properties = props\<rparr>
      in call (ESubmitJob project_id region spec) (submit_job_result sv))"

text \<open>One \<^verbatim>\<open>get_job\<close> call outside the loop.\<close>

definition get_job_once :: "('f, 'v) services \<Rightarrow> (job, 'v) comp" where
  "get_job_once sv = (\<lambda>w. Some (get_job_result sv (get_job_calls w), polled w))"

text \<open>
  \<^verbatim>\<open>_print_job_output_log\<close>: the job is fetched once more, the first part of its output
  is downloaded, and the bytes are decoded for the log.
\<close>

definition print_job_output_log :: "('f, 'v) services \<Rightarrow> (unit, 'v) comp" where
  "print_job_output_log sv =
     bind (get_job_once sv)
       (\<lambda>jb. bind (call (EDownloadBlob (driver_output_resource_uri jb @ ''.000000000''))
                     (download_blob_result sv (driver_output_resource_uri jb @ ''.000000000'')))
               (\<lambda>bytes. if decodes_as_utf8 (python sv) bytes then ret ()
                         else raise (UnicodeDecodeError ''utf-8'')))"

text \<open>
  The \<^verbatim>\<open>try\<close> statement at the end of \<^verbatim>\<open>run\<close>: the watcher, and in the \<^verbatim>\<open>finally\<close>
  block the retrieval of the log. The value that the watcher returns is not used.
\<close>

definition watch_then_print_log :: "('f, 'v) services \<Rightarrow> (unit, 'v) comp" where
  "watch_then_print_log sv =
     try_finally
       (bind (wait_for_job_to_finish (get_job_result sv)) (\<lambda>_. ret ()))
       (print_job_output_log sv)"

text \<open>The body of the \<^verbatim>\<open>with\<close> statement of \<^verbatim>\<open>run\<close>: submission, then the statement above.\<close>

definition in_temp_cluster ::
  "'f PySparkJob \<Rightarrow> ('f, 'v) services \<Rightarrow> string \<Rightarrow> string \<Rightarrow> string \<Rightarrow> (unit, 'v) comp"
where
  "in_temp_cluster j sv driver_path egg_path name =
     bind (submit_single_pyspark_job (gcp_project_id j) (gcp_region j) name (bucket_id j)
             driver_path egg_path (jar_file_uris j) (prepare_pyspark_properties j) sv)
       (\<lambda>jb. watch_then_print_log sv)"

text \<open>\<^verbatim>\<open>PySparkJob.run\<close>\<close>

definition run :: "'f PySparkJob \<Rightarrow> 'v \<Rightarrow> ('f, 'v) services \<Rightarrow> (unit, 'v) comp" where
  "run j0 runtime sv =
     bind (ensure_has_setup_file j0 sv) (\<lambda>j.
       let job_internal_id =
             generate_internal_jobid (python sv) j (clock sv) (random_draws sv)
       in
       bind (call (EStorageClient (gcp_project_id j)) (storage_client_result sv)) (\<lambda>_.
       bind (call (EJobClient (api_endpoint j)) (job_client_result sv)) (\<lambda>_.
       bind (prepare_driver_callable_in_run j runtime) (\<lambda>driver.
       bind (call (EGetBucket (bucket_id j)) (get_bucket_result sv)) (\<lambda>_.
       bind (build_project_egg (setup_file j) sv) (\<lambda>egg_local_path.
       bind (upload_egg egg_local_path job_internal_id sv) (\<lambda>egg_path.
       let driver_path = job_internal_id @ ''/'' @ driver_filename j
       in
       bind (generate_and_upload_driver driver driver_path sv) (\<lambda>_.
       with_temp_cluster j job_internal_id sv
         (in_temp_cluster j sv driver_path egg_path)))))))))"

section \<open>Sample inputs\<close>



text \<open>The caller's store: one dict, with an entry for \<^verbatim>\<open>runtime\<close> already in it.\<close>

definition demo_store :: "string dict list" where
  "demo_store = [[(''table'', ''t1''), (''runtime'', ''caller'')]]"

definition demo_job :: "string PySparkJob" where
  "demo_job =
     \<lparr>id' = ''demo'', driver_filename = ''driver.py'', driver_callable = ''main'',
      driver_arguments = 0, bucket_id = ''bucket'', gcp_project_id = ''project'',
      gcp_region = ''europe-west1'', env = ''dev'',
      jar_file_uris = [''gs://spark-lib/bigquery/spark-bigquery-latest_2.12.jar''],
      worker_machine_type = ''n1-standard-1'', worker_num_instances = 2,
      pip_packages = [''bigflow[dataproc,log,bigquery]==1.0''],
      setup_file = Some ''/project/setup.py'', project = None,
      any_file_inside_project = None\<rparr>"

definition demo_python :: python_runtime where
  "demo_python =
     \<lparr>str_lower_non_ascii = (\<lambda>s. s), strftime_year_below_1000 = decimal,
      decodes_as_utf8 = (\<lambda>b. True)\<rparr>"

definition demo_clock :: datetime where
  "demo_clock = \<lparr>year = 2024, month = 1, day = 1, hour = 12, minute = 0, second = 0\<rparr>"

definition demo_draws :: "nat \<Rightarrow> nat" where
  "demo_draws i = [0, 1, 2, 27, 28, 29, 30, 31, 32, 33] ! i"

text \<open>
  Services that all succeed; the job is RUNNING at the first poll and DONE from the second
  on. The pickler here writes the name of the callable.
\<close>

definition demo_services :: "(string, string) services" where
  "demo_services =
     \<lparr>python = demo_python, clock = demo_clock, random_draws = demo_draws,
      wrapper_address = 255,
      find_or_create_setup_result = Inr ''/project/setup.py'',
      storage_client_result = Inr (),
      job_client_result = Inr (),
      get_bucket_result = Inr (),
      build_project_egg_result = Inr ''/project/dist/proj.egg'',
      upload_egg_result = Inr (),
      pickle_dumps_result = (\<lambda>u. Inr (wu_callable u)),
      upload_driver_result = Inr (),
      cluster_client_result = Inr (),
      create_cluster_result = Inr (),
      cluster_future_result = Inr (),
      submit_job_result = Inr ''job-1'',
      get_job_result =
        (\<lambda>n. Inr \<lparr>status = \<lparr>state = (if n = 0 then RUNNING else DONE), details = []\<rparr>,
                   driver_output_resource_uri = ''gs://bucket/out''\<rparr>),
      download_blob_result = (\<lambda>uri. Inr ''log''),
      delete_cluster_result = Inr ()\<rparr>"

text \<open>The same services with a job that ends in ERROR with details \<^verbatim>\<open>boom\<close>.\<close>

definition boom_services :: "(string, string) services" where
  "boom_services = demo_services\<lparr>get_job_result := (\<lambda>n. Inr (boom_jobs n))\<rparr>"




text \<open>Services whose pickler fails.\<close>

definition no_pickle_services :: "(string, string) services" where
  "no_pickle_services =
     demo_services\<lparr>pickle_dumps_result := (\<lambda>u. Inl (Exception ''cannot pickle''))\<rparr>"

section \<open>Vocabulary for the properties of a run\<close>

fun is_create :: "event \<Rightarrow> bool" where
  "is_create (ECreateCluster p r d) = True"
| "is_create ev = False"

fun is_delete :: "event \<Rightarrow> bool" where
  "is_delete (EDeleteCluster p r c) = True"
| "is_delete ev = False"

fun is_submit :: "event \<Rightarrow> bool" where
  "is_submit (ESubmitJob p r s) = True"
| "is_submit ev = False"

fun is_upload_egg :: "event \<Rightarrow> bool" where
  "is_upload_egg (EUploadEgg p f) = True"
| "is_upload_egg ev = False"

fun is_upload_driver :: "event \<Rightarrow> bool" where
  "is_upload_driver (EUploadDriver p s) = True"
| "is_upload_driver ev = False"

text \<open>The events of the steps of \<^verbatim>\<open>run\<close> that come before the cluster scope.\<close>

fun before_scope :: "event \<Rightarrow> bool" where
  "before_scope EFindSetup = True"
| "before_scope (EStorageClient p) = True"
| "before_scope (EJobClient e) = True"
| "before_scope (EGetBucket b) = True"
| "before_scope (EBuildEgg f) = True"
| "before_scope (EUploadEgg p f) = True"
| "before_scope EPickle = True"
| "before_scope (EUploadDriver p s) = True"
| "before_scope ev = False"

text \<open>The events of the body of the \<^verbatim>\<open>with\<close> statement, and of the cluster creation.\<close>

fun inside_scope :: "event \<Rightarrow> bool" where
  "inside_scope (ECreateCluster p r d) = True"
| "inside_scope EClusterResult = True"
| "inside_scope (ESubmitJob p r s) = True"
| "inside_scope EGetJob = True"
| "inside_scope (ESleep n) = True"
| "inside_scope (EDownloadBlob u) = True"
| "inside_scope ev = False"

text \<open>
  A computation adds only events of a kind: whenever it ends, the events are those before
  it, followed by events of the kind.
\<close>

definition adds :: "(event \<Rightarrow> bool) \<Rightarrow> ('a, 'v) comp \<Rightarrow> bool" where
  "adds P m = (\<forall>w r w'. m w = Some (r, w') \<longrightarrow> (\<exists>evs. events w' = events w @ evs \<and> list_all P evs))"

text \<open>The outcome and the events of a computation from a state (no events if it does not end).\<close>

definition outcome :: "('a, 'v) comp \<Rightarrow> 'v world \<Rightarrow> (error + 'a) option" where
  "outcome m w = (case m w of None \<Rightarrow> None | Some (r, w') \<Rightarrow> Some r)"

definition trace :: "('a, 'v) comp \<Rightarrow> 'v world \<Rightarrow> event list" where
  "trace m w = (case m w of None \<Rightarrow> [] | Some (r, w') \<Rightarrow> events w')"

text \<open>The work unit that a run pickles: the wrapper made from the descriptor, by value.\<close>

definition work_unit_in_run :: "'f PySparkJob \<Rightarrow> 'v \<Rightarrow> 'v dict list \<Rightarrow> ('f, 'v) work_unit" where
  "work_unit_in_run j runtime h =
     (let (d, h') = prepare_driver_callable j runtime h in work_unit_of d h')"





section \<open>The watcher: unfolding and termination\<close>

lemma wait_stop:
  "stops (get_job (get_job_calls w)) \<Longrightarrow>
   wait_for_job_to_finish get_job w = Some (watch_result (get_job (get_job_calls w)), polled w)"
  by (subst wait_for_job_to_finish.simps) (auto simp: terminal_def split: sum.splits)

lemma wait_continue:
  "\<not> stops (get_job (get_job_calls w)) \<Longrightarrow>
   wait_for_job_to_finish get_job w = wait_for_job_to_finish get_job (emit (ESleep 5) (polled w))"
  by (subst wait_for_job_to_finish.simps) (auto simp: terminal_def split: sum.splits)

lemma wait_returns_stops:
  assumes "wait_for_job_to_finish get_job w = Some r"
  shows "\<exists>n\<ge>get_job_calls w. stops (get_job n)"
proof (rule wait_for_job_to_finish.raw_induct
    [where P = "\<lambda>g w r. \<exists>n\<ge>get_job_calls w. stops (g n)", OF _ assms])
  fix wf :: "(nat \<Rightarrow> error + job) \<Rightarrow> (job, 'v) comp"
  fix g w r
  assume IH: "\<And>g' w' y. wf g' w' = Some y \<Longrightarrow> \<exists>n\<ge>get_job_calls w'. stops (g' n)"
  assume eq: "(case g (get_job_calls w) of
        Inl e \<Rightarrow> Some (Inl e, polled w)
      | Inr j \<Rightarrow>
          if state (status j) = DONE then Some (Inr j, polled w)
          else if state (status j) = ERROR then
            Some (Inl (Exception (details (status j))), polled w)
          else if state (status j) = CANCELLED then
            Some (Inl (Exception ''Job was CANCELLED''), polled w)
          else wf g (emit (ESleep 5) (polled w))) = Some r"
  show "\<exists>n\<ge>get_job_calls w. stops (g n)"
  proof (cases "stops (g (get_job_calls w))")
    case True
    then show ?thesis by blast
  next
    case False
    then have "wf g (emit (ESleep 5) (polled w)) = Some r"
      using eq by (auto simp: terminal_def split: sum.splits if_splits)
    from IH[OF this] obtain n where "n \<ge> Suc (get_job_calls w)" "stops (g n)"
      by (auto simp: emit_def polled_def)
    then show ?thesis by (metis Suc_leD)
  qed
qed

lemma wait_first_stop:
  "\<lbrakk>\<forall>i. get_job_calls w \<le> i \<and> i < n \<longrightarrow> \<not> stops (get_job i); stops (get_job n); get_job_calls w \<le> n\<rbrakk> \<Longrightarrow>
   wait_for_job_to_finish get_job w =
     Some (watch_result (get_job n),
           w\<lparr>events := events w @ polling (n - get_job_calls w) @ [EGetJob], get_job_calls := Suc n\<rparr>)"
proof (induction "n - get_job_calls w" arbitrary: w)
  case 0
  then have "get_job_calls w = n" by simp
  with 0 show ?case by (simp add: wait_stop polled_def emit_def)
next
  case (Suc k)
  let ?w = "emit (ESleep 5) (polled w)"
  have c: "get_job_calls ?w = Suc (get_job_calls w)" by (simp add: emit_def polled_def)
  have ns: "\<not> stops (get_job (get_job_calls w))" using Suc.prems(1) Suc.hyps(2) by simp
  have "k = n - get_job_calls ?w" using Suc.hyps(2) c by simp
  moreover have "\<forall>i. get_job_calls ?w \<le> i \<and> i < n \<longrightarrow> \<not> stops (get_job i)"
    using Suc.prems(1) c by simp
  moreover have "get_job_calls ?w \<le> n" using Suc.hyps(2) c by simp
  ultimately have "wait_for_job_to_finish get_job ?w =
     Some (watch_result (get_job n),
           ?w\<lparr>events := events ?w @ polling (n - get_job_calls ?w) @ [EGetJob], get_job_calls := Suc n\<rparr>)"
    using Suc.hyps(1) Suc.prems(2) by blast
  moreover have "n - get_job_calls w = Suc (n - get_job_calls ?w)" using Suc.hyps(2) c by simp
  ultimately show ?case using ns by (simp add: wait_continue emit_def polled_def)
qed

lemma first_terminal_exists:
  "terminal (state (status (jobs m))) \<Longrightarrow> \<exists>n. first_terminal jobs n"
proof (induction m rule: less_induct)
  case (less m)
  show ?case
  proof (cases "\<exists>i<m. terminal (state (status (jobs i)))")
    case True
    then obtain i where "i < m" and "terminal (state (status (jobs i)))" by blast
    then show ?thesis using less.IH by blast
  next
    case False
    then have "first_terminal jobs m"
      using less.prems by (simp add: first_terminal_def)
    then show ?thesis ..
  qed
qed

lemma wait_first_terminal:
  assumes "get_job_calls w = 0" and "first_terminal jobs n"
  shows "wait_for_job_to_finish (\<lambda>i. Inr (jobs i)) w =
     Some (watch_result (Inr (jobs n)),
           w\<lparr>events := events w @ polling n @ [EGetJob], get_job_calls := Suc n\<rparr>)"
  using wait_first_stop[of w n "\<lambda>i. Inr (jobs i)"] assms
  by (simp add: first_terminal_def)

lemma wait_some_terminal:
  assumes "wait_for_job_to_finish (\<lambda>i. Inr (jobs i)) w = Some r"
  shows "\<exists>n. terminal (state (status (jobs n)))"
  using wait_returns_stops[OF assms] by auto

lemma wait_rounds_running:
  "(\<forall>i. get_job_calls w \<le> i \<and> i < get_job_calls w + k \<longrightarrow> \<not> stops (get_job i)) \<Longrightarrow>
   wait_rounds k get_job w =
     (None, w\<lparr>events := events w @ polling k, get_job_calls := get_job_calls w + k\<rparr>)"
proof (induction k arbitrary: w)
  case 0
  show ?case by simp
next
  case (Suc k)
  let ?w = "emit (ESleep 5) (polled w)"
  have c: "get_job_calls ?w = Suc (get_job_calls w)" by (simp add: emit_def polled_def)
  have ns: "\<not> stops (get_job (get_job_calls w))" using Suc.prems by simp
  have "\<forall>i. get_job_calls ?w \<le> i \<and> i < get_job_calls ?w + k \<longrightarrow> \<not> stops (get_job i)"
    using Suc.prems c by simp
  from Suc.IH[OF this]
  have ih: "wait_rounds k get_job ?w =
     (None, ?w\<lparr>events := events ?w @ polling k, get_job_calls := get_job_calls ?w + k\<rparr>)" .
  have step: "wait_rounds (Suc k) get_job w = wait_rounds k get_job ?w"
    using ns by (auto simp: terminal_def split: sum.splits)
  show ?case unfolding step ih by (simp add: emit_def polled_def)
qed

lemma wait_rounds_agrees:
  "wait_rounds k get_job w = (Some r, w') \<Longrightarrow> wait_for_job_to_finish get_job w = Some (r, w')"
proof (induction k arbitrary: w)
  case 0
  then show ?case by simp
next
  case (Suc k)
  show ?case
  proof (cases "stops (get_job (get_job_calls w))")
    case True
    then have "wait_rounds (Suc k) get_job w = (Some (watch_result (get_job (get_job_calls w))), polled w)"
      by (auto simp: terminal_def split: sum.splits)
    with Suc.prems True show ?thesis by (simp add: wait_stop)
  next
    case False
    then have "wait_rounds (Suc k) get_job w = wait_rounds k get_job (emit (ESleep 5) (polled w))"
      by (auto simp: terminal_def split: sum.splits)
    with Suc.prems Suc.IH False show ?thesis by (simp add: wait_continue)
  qed
qed

lemma first_stop_exists:
  "stops (get_job m) \<Longrightarrow> \<exists>n. first_stop get_job n"
proof (induction m rule: less_induct)
  case (less m)
  show ?case
  proof (cases "\<exists>i<m. stops (get_job i)")
    case True
    then obtain i where "i < m" and "stops (get_job i)" by blast
    then show ?thesis using less.IH by blast
  next
    case False
    then have "first_stop get_job m"
      using less.prems by (simp add: first_stop_def)
    then show ?thesis ..
  qed
qed

lemma wait_first_stop0:
  assumes "get_job_calls w = 0" and "first_stop get_job n"
  shows "wait_for_job_to_finish get_job w =
     Some (watch_result (get_job n),
           w\<lparr>events := events w @ polling n @ [EGetJob], get_job_calls := Suc n\<rparr>)"
  using wait_first_stop[of w n get_job] assms
  by (simp add: first_stop_def)

section \<open>Computations and their events\<close>

lemma call_eq: "call ev out w = Some (out, emit ev w)"
  by (simp add: call_def)

lemma events_emit: "events (emit ev w) = events w @ [ev]"
  by (simp add: emit_def)

lemma events_polled: "events (polled w) = events w @ [EGetJob]"
  by (simp add: polled_def emit_def)

lemma bind_eq_Some_cases:
  assumes "bind m f w = Some (r, w')"
  obtains (raised) e where "m w = Some (Inl e, w')" and "r = Inl e"
        | (returned) x w1 where "m w = Some (Inr x, w1)" and "f x w1 = Some (r, w')"
  using assms unfolding bind_def
  by (auto split: option.splits sum.splits prod.splits)

lemma try_finally_eq_Some_cases:
  assumes "try_finally m fin w = Some (r, w')"
  obtains (fin_raised) r1 w1 e where "m w = Some (r1, w1)" and "fin w1 = Some (Inl e, w')" and "r = Inl e"
        | (fin_returned) w1 where "m w = Some (r, w1)" and "fin w1 = Some (Inr (), w')"
  using assms unfolding try_finally_def
  by (auto split: option.splits sum.splits prod.splits)

lemma addsI:
  "(\<And>w r w'. m w = Some (r, w') \<Longrightarrow> \<exists>evs. events w' = events w @ evs \<and> list_all P evs) \<Longrightarrow> adds P m"
  unfolding adds_def by blast

lemma addsD:
  "adds P m \<Longrightarrow> m w = Some (r, w') \<Longrightarrow> \<exists>evs. events w' = events w @ evs \<and> list_all P evs"
  unfolding adds_def by blast

lemma adds_ret: "adds P (ret x)"
  by (rule addsI) (simp add: ret_def)

lemma adds_raise: "adds P (raise e)"
  by (rule addsI) (simp add: raise_def)

lemma adds_call: "P ev \<Longrightarrow> adds P (call ev out)"
  by (rule addsI) (auto simp: call_def emit_def)

lemma adds_bind:
  assumes "adds P m" and "\<And>x. adds P (f x)"
  shows "adds P (bind m f)"
proof (rule addsI)
  fix w r w'
  assume "bind m f w = Some (r, w')"
  then show "\<exists>evs. events w' = events w @ evs \<and> list_all P evs"
  proof (cases rule: bind_eq_Some_cases)
    case (raised e)
    then show ?thesis using addsD[OF assms(1)] by blast
  next
    case (returned x w1)
    from addsD[OF assms(1) returned(1)] obtain e1 where
      e1: "events w1 = events w @ e1" "list_all P e1" by blast
    from addsD[OF assms(2) returned(2)] obtain e2 where
      e2: "events w' = events w1 @ e2" "list_all P e2" by blast
    from e1 e2 have "events w' = events w @ (e1 @ e2) \<and> list_all P (e1 @ e2)" by simp
    then show ?thesis by blast
  qed
qed

lemma adds_try_finally:
  assumes "adds P m" and "adds P fin"
  shows "adds P (try_finally m fin)"
proof (rule addsI)
  fix w r w'
  assume "try_finally m fin w = Some (r, w')"
  then obtain r1 w1 r2 where a: "m w = Some (r1, w1)" and b: "fin w1 = Some (r2, w')"
    by (cases rule: try_finally_eq_Some_cases) blast+
  from addsD[OF assms(1) a] obtain e1 where
    e1: "events w1 = events w @ e1" "list_all P e1" by blast
  from addsD[OF assms(2) b] obtain e2 where
    e2: "events w' = events w1 @ e2" "list_all P e2" by blast
  from e1 e2 have "events w' = events w @ (e1 @ e2) \<and> list_all P (e1 @ e2)" by simp
  then show "\<exists>evs. events w' = events w @ evs \<and> list_all P evs" by blast
qed

lemma adds_wait:
  assumes g: "P EGetJob" and s: "P (ESleep 5)"
  shows "adds P (wait_for_job_to_finish get_job)"
proof (rule addsI)
  fix w :: "'a world" and r w'
  assume a: "wait_for_job_to_finish get_job w = Some (r, w')"
  have "\<exists>evs. events (snd (r, w')) = events w @ evs \<and> list_all P evs"
  proof (rule wait_for_job_to_finish.raw_induct
      [where P = "\<lambda>g w y. \<exists>evs. events (snd y) = events w @ evs \<and> list_all P evs", OF _ a])
    fix wf :: "(nat \<Rightarrow> error + job) \<Rightarrow> (job, 'a) comp"
    fix g w y
    assume IH: "\<And>g' w' y'. wf g' w' = Some y' \<Longrightarrow>
        \<exists>evs. events (snd y') = events w' @ evs \<and> list_all P evs"
    assume eq: "(case g (get_job_calls w) of
        Inl e \<Rightarrow> Some (Inl e, polled w)
      | Inr j \<Rightarrow>
          if state (status j) = DONE then Some (Inr j, polled w)
          else if state (status j) = ERROR then
            Some (Inl (Exception (details (status j))), polled w)
          else if state (status j) = CANCELLED then
            Some (Inl (Exception ''Job was CANCELLED''), polled w)
          else wf g (emit (ESleep 5) (polled w))) = Some y"
    show "\<exists>evs. events (snd y) = events w @ evs \<and> list_all P evs"
    proof (cases "stops (g (get_job_calls w))")
      case True
      then have "snd y = polled w"
        using eq by (auto simp: terminal_def split: sum.splits if_splits)
      then have "events (snd y) = events w @ [EGetJob] \<and> list_all P [EGetJob]"
        using g by (simp add: events_polled)
      then show ?thesis by blast
    next
      case False
      then have "wf g (emit (ESleep 5) (polled w)) = Some y"
        using eq by (auto simp: terminal_def split: sum.splits if_splits)
      from IH[OF this] obtain evs where
        "events (snd y) = events (emit (ESleep 5) (polled w)) @ evs" "list_all P evs" by blast
      then have "events (snd y) = events w @ ([EGetJob, ESleep 5] @ evs)
          \<and> list_all P ([EGetJob, ESleep 5] @ evs)"
        using g s by (simp add: events_polled events_emit)
      then show ?thesis by blast
    qed
  qed
  then show "\<exists>evs. events w' = events w @ evs \<and> list_all P evs" by simp
qed

lemma adds_get_job_once: "P EGetJob \<Longrightarrow> adds P (get_job_once sv)"
  by (rule addsI) (auto simp: get_job_once_def events_polled)

lemma adds_print_job_output_log:
  assumes "P EGetJob" and "\<And>u. P (EDownloadBlob u)"
  shows "adds P (print_job_output_log sv)"
  unfolding print_job_output_log_def
  by (intro adds_bind adds_get_job_once adds_call assms) (simp add: adds_ret adds_raise)

lemma adds_watch_then_print_log:
  assumes "P EGetJob" and "P (ESleep 5)" and "\<And>u. P (EDownloadBlob u)"
  shows "adds P (watch_then_print_log sv)"
  unfolding watch_then_print_log_def
  by (intro adds_try_finally adds_bind adds_wait adds_ret adds_print_job_output_log assms)

lemma adds_in_temp_cluster:
  assumes "P EGetJob" and "P (ESleep 5)" and "\<And>u. P (EDownloadBlob u)"
    and "\<And>p r s. P (ESubmitJob p r s)"
  shows "adds P (in_temp_cluster j sv dp ep name)"
  unfolding in_temp_cluster_def submit_single_pyspark_job_def Let_def
  by (intro adds_bind adds_call adds_watch_then_print_log assms)

lemma adds_inside_scope: "adds inside_scope (in_temp_cluster j sv dp ep name)"
  by (rule adds_in_temp_cluster) simp_all

lemma jobid_setup_file [simp]:
  "generate_internal_jobid py (j\<lparr>setup_file := f\<rparr>) t d = generate_internal_jobid py j t d"
  by (simp add: generate_internal_jobid_def)

lemma adds_before_scope_steps:
  "adds before_scope (ensure_has_setup_file j sv)"
  "adds before_scope (prepare_driver_callable_in_run j rt)"
  "adds before_scope (build_project_egg f sv)"
  "adds before_scope (upload_egg p i sv)"
  "adds before_scope (generate_and_upload_driver d dp sv)"
proof -
  show "adds before_scope (ensure_has_setup_file j sv)"
    unfolding ensure_has_setup_file_def
    by (auto intro!: adds_bind adds_call adds_ret)
  show "adds before_scope (prepare_driver_callable_in_run j rt)"
    by (rule addsI) (auto simp: prepare_driver_callable_in_run_def Let_def split: prod.splits)
  show "adds before_scope (build_project_egg f sv)"
    unfolding build_project_egg_def
    by (auto intro!: adds_call adds_raise split: option.splits)
  show "adds before_scope (upload_egg p i sv)"
    unfolding upload_egg_def Let_def
    by (auto intro!: adds_bind adds_call adds_ret)
  show "adds before_scope (generate_and_upload_driver d dp sv)"
    unfolding generate_and_upload_driver_def generate_driver_script_def
    by (intro adds_bind adds_call adds_ret addsI) (auto simp: call_def emit_def)
qed

lemma run_cases:
  assumes "run j0 rt sv w = Some (r, w')"
  obtains (early) pre e where "events w' = events w @ pre" and "list_all before_scope pre"
      and "r = Inl e"
  | (scope) f w1 pre dp ep where "events w1 = events w @ pre" and "list_all before_scope pre"
      and "with_temp_cluster (j0\<lparr>setup_file := f\<rparr>)
             (generate_internal_jobid (python sv) j0 (clock sv) (random_draws sv)) sv
             (in_temp_cluster (j0\<lparr>setup_file := f\<rparr>) sv dp ep) w1 = Some (r, w')"
proof -
  let ?id = "generate_internal_jobid (python sv) j0 (clock sv) (random_draws sv)"
  from assms have a0: "bind (ensure_has_setup_file j0 sv) (\<lambda>j.
       bind (call (EStorageClient (gcp_project_id j)) (storage_client_result sv)) (\<lambda>_.
       bind (call (EJobClient (api_endpoint j)) (job_client_result sv)) (\<lambda>_.
       bind (prepare_driver_callable_in_run j rt) (\<lambda>driver.
       bind (call (EGetBucket (bucket_id j)) (get_bucket_result sv)) (\<lambda>_.
       bind (build_project_egg (setup_file j) sv) (\<lambda>egg_local_path.
       bind (upload_egg egg_local_path (generate_internal_jobid (python sv) j (clock sv) (random_draws sv)) sv) (\<lambda>egg_path.
       bind (generate_and_upload_driver driver
               (generate_internal_jobid (python sv) j (clock sv) (random_draws sv) @ ''/'' @ driver_filename j) sv) (\<lambda>_.
       with_temp_cluster j (generate_internal_jobid (python sv) j (clock sv) (random_draws sv)) sv
         (in_temp_cluster j sv
            (generate_internal_jobid (python sv) j (clock sv) (random_draws sv) @ ''/'' @ driver_filename j)
            egg_path))))))))) w = Some (r, w')"
    by (simp add: run_def Let_def)
  note S = adds_before_scope_steps
  note C = adds_call[where P = before_scope]
  from a0 show thesis
  proof (cases rule: bind_eq_Some_cases)
    case (raised e)
    with addsD[OF S(1) raised(1)] early show ?thesis by blast
  next
    case (returned j w1)
    from addsD[OF S(1) returned(1)] obtain p1 where
      p1: "events w1 = events w @ p1" "list_all before_scope p1" by blast
    have jf: "\<exists>f. j = j0\<lparr>setup_file := f\<rparr>"
      using returned(1)
      by (auto simp: ensure_has_setup_file_def ret_def call_def bind_def
          split: if_splits sum.splits intro: exI[of _ "setup_file j0"])
    then obtain f where j: "j = j0\<lparr>setup_file := f\<rparr>" ..
    from returned(2) show ?thesis
    proof (cases rule: bind_eq_Some_cases)
      case (raised e)
      from addsD[OF C raised(1)] p1 early[of "p1 @ _"] raised(2) show ?thesis by fastforce
    next
      case (returned x2 w2)
      from addsD[OF C returned(1)] p1 obtain p2 where
        p2: "events w2 = events w @ p2" "list_all before_scope p2" by fastforce
      from returned(2) show ?thesis
      proof (cases rule: bind_eq_Some_cases)
        case (raised e)
        from addsD[OF C raised(1)] p2 early[of "p2 @ _"] raised(2) show ?thesis by fastforce
      next
        case (returned x3 w3)
        from addsD[OF C returned(1)] p2 obtain p3 where
          p3: "events w3 = events w @ p3" "list_all before_scope p3" by fastforce
        from returned(2) show ?thesis
        proof (cases rule: bind_eq_Some_cases)
          case (raised e)
          from addsD[OF S(2) raised(1)] p3 early[of "p3 @ _"] raised(2) show ?thesis by fastforce
        next
          case (returned driver w4)
          from addsD[OF S(2) returned(1)] p3 obtain p4 where
            p4: "events w4 = events w @ p4" "list_all before_scope p4" by fastforce
          from returned(2) show ?thesis
          proof (cases rule: bind_eq_Some_cases)
            case (raised e)
            from addsD[OF C raised(1)] p4 early[of "p4 @ _"] raised(2) show ?thesis by fastforce
          next
            case (returned x5 w5)
            from addsD[OF C returned(1)] p4 obtain p5 where
              p5: "events w5 = events w @ p5" "list_all before_scope p5" by fastforce
            from returned(2) show ?thesis
            proof (cases rule: bind_eq_Some_cases)
              case (raised e)
              from addsD[OF S(3) raised(1)] p5 early[of "p5 @ _"] raised(2) show ?thesis by fastforce
            next
              case (returned egg w6)
              from addsD[OF S(3) returned(1)] p5 obtain p6 where
                p6: "events w6 = events w @ p6" "list_all before_scope p6" by fastforce
              from returned(2) show ?thesis
              proof (cases rule: bind_eq_Some_cases)
                case (raised e)
                from addsD[OF S(4) raised(1)] p6 early[of "p6 @ _"] raised(2) show ?thesis by fastforce
              next
                case (returned egg_path w7)
                from addsD[OF S(4) returned(1)] p6 obtain p7 where
                  p7: "events w7 = events w @ p7" "list_all before_scope p7" by fastforce
                from returned(2) show ?thesis
                proof (cases rule: bind_eq_Some_cases)
                  case (raised e)
                  from addsD[OF S(5) raised(1)] p7 early[of "p7 @ _"] raised(2) show ?thesis by fastforce
                next
                  case (returned x8 w8)
                  from addsD[OF S(5) returned(1)] p7 obtain p8 where
                    p8: "events w8 = events w @ p8" "list_all before_scope p8" by fastforce
                  from returned(2) j scope[OF p8] show ?thesis by simp
                qed
              qed
            qed
          qed
        qed
      qed
    qed
  qed
qed

lemma before_scope_not_cluster:
  "list_all before_scope evs \<Longrightarrow> \<not> list_ex is_create evs \<and> \<not> list_ex is_delete evs"
  by (induction evs) (auto elim: before_scope.elims)

lemma inside_scope_not_delete:
  "list_all inside_scope evs \<Longrightarrow> \<not> list_ex is_delete evs"
  by (induction evs) (auto elim: inside_scope.elims)

lemma cluster_name_data_for [simp]: "cluster_name (cluster_data_for rg name reqs n mt) = name"
  by (simp add: cluster_data_for_def)

lemma create_cluster_eq_Some:
  assumes "create_cluster p rg name reqs n mt sv w = Some (res, w1)"
  shows "(\<exists>e. res = Inl e \<and> create_cluster_result sv = Inl e
            \<and> w1 = emit (ECreateCluster p rg (cluster_data_for rg name reqs n mt)) w)
       \<or> (\<exists>e. res = Inl e \<and> cluster_future_result sv = Inl e
            \<and> w1 = emit EClusterResult (emit (ECreateCluster p rg (cluster_data_for rg name reqs n mt)) w))
       \<or> (res = Inr name
            \<and> w1 = emit EClusterResult (emit (ECreateCluster p rg (cluster_data_for rg name reqs n mt)) w))"
  using assms unfolding create_cluster_def Let_def bind_def call_def ret_def
  by (auto split: sum.splits option.splits prod.splits)

lemma create_then_body_cases:
  assumes "bind (create_cluster p rg name reqs n mt sv) body w = Some (r1, w2)"
  obtains (create_raised) e where "r1 = Inl e" and "create_cluster_result sv = Inl e"
      and "events w2 = events w @ [ECreateCluster p rg (cluster_data_for rg name reqs n mt)]"
  | (wait_raised) e where "r1 = Inl e" and "cluster_future_result sv = Inl e"
      and "events w2 = events w @ [ECreateCluster p rg (cluster_data_for rg name reqs n mt), EClusterResult]"
  | (created) w1 where
      "events w1 = events w @ [ECreateCluster p rg (cluster_data_for rg name reqs n mt), EClusterResult]"
      and "get_job_calls w1 = get_job_calls w"
      and "body name w1 = Some (r1, w2)"
  using assms
proof (cases rule: bind_eq_Some_cases)
  case (raised e)
  from create_cluster_eq_Some[OF raised(1)] raised(2) show ?thesis
    using create_raised wait_raised by (auto simp: emit_def)
next
  case (returned x w1)
  from create_cluster_eq_Some[OF returned(1)]
  have "x = name" and "events w1 = events w @ [ECreateCluster p rg (cluster_data_for rg name reqs n mt), EClusterResult]"
    and "get_job_calls w1 = get_job_calls w"
    by (auto simp: emit_def)
  with returned(2) created show ?thesis by blast
qed

lemma create_then_body_events:
  assumes "bind (create_cluster p rg name reqs n mt sv) body w = Some (r1, w2)"
    and "\<And>x. adds inside_scope (body x)"
  shows "\<exists>mid. events w2 = events w @ ECreateCluster p rg (cluster_data_for rg name reqs n mt) # mid
            \<and> list_all inside_scope mid"
  using assms(1)
proof (cases rule: create_then_body_cases)
  case (create_raised e)
  then show ?thesis by auto
next
  case (wait_raised e)
  then have "events w2 = events w @ ECreateCluster p rg (cluster_data_for rg name reqs n mt) # [EClusterResult]
      \<and> list_all inside_scope [EClusterResult]" by simp
  then show ?thesis by blast
next
  case (created w1)
  from addsD[OF assms(2) created(3)] obtain evs where
    "events w2 = events w1 @ evs" "list_all inside_scope evs" by blast
  with created have "events w2 = events w @ ECreateCluster p rg (cluster_data_for rg name reqs n mt) # (EClusterResult # evs)
      \<and> list_all inside_scope (EClusterResult # evs)" by simp
  then show ?thesis by blast
qed

lemma with_temp_cluster_cases:
  assumes "with_temp_cluster j name sv body w = Some (r, w')"
  obtains (no_client) e where "cluster_client_result sv = Inl e" and "r = Inl e"
      and "events w' = events w @ [EClusterClient (api_endpoint j)]"
  | (scope) r1 w2 where
      "bind (create_cluster (gcp_project_id j) (gcp_region j) name (pip_packages j)
               (worker_num_instances j) (worker_machine_type j) sv) body
          (emit (EClusterClient (api_endpoint j)) w) = Some (r1, w2)"
      and "w' = emit (EDeleteCluster (gcp_project_id j) (gcp_region j) name) w2"
      and "r = (case delete_cluster_result sv of Inl e \<Rightarrow> Inl e | Inr u \<Rightarrow> r1)"
  using assms unfolding with_temp_cluster_def
proof (cases rule: bind_eq_Some_cases)
  case (raised e)
  then show ?thesis using no_client by (auto simp: call_def emit_def)
next
  case (returned x w1)
  then have w1: "w1 = emit (EClusterClient (api_endpoint j)) w" by (auto simp: call_def)
  from returned(2) show ?thesis
  proof (cases rule: try_finally_eq_Some_cases)
    case (fin_raised r1 w2 e)
    then show ?thesis using scope[of r1 w2] w1 by (auto simp: delete_cluster_def call_def)
  next
    case (fin_returned w2)
    then show ?thesis using scope[of r w2] w1 by (auto simp: delete_cluster_def call_def)
  qed
qed





lemma inside_scope_before_delete:
  "list_all before_scope evs \<Longrightarrow> \<not> list_ex is_delete evs"
  by (simp add: before_scope_not_cluster)

lemma prepare_setup_file [simp]:
  "prepare_driver_callable (j\<lparr>setup_file := f\<rparr>) rt h = prepare_driver_callable j rt h"
  by (simp add: prepare_driver_callable_def)

lemma run_to_scope:
  assumes "setup_file j = Some sf" and "sf \<noteq> []"
    and "storage_client_result sv = Inr ()" and "job_client_result sv = Inr ()"
    and "get_bucket_result sv = Inr ()" and "build_project_egg_result sv = Inr egg"
    and "upload_egg_result sv = Inr ()"
  shows "run j rt sv w =
    (let jid = generate_internal_jobid (python sv) j (clock sv) (random_draws sv);
         dp = jid @ ''/'' @ driver_filename j;
         ep = jid @ ''/'' @ path_name egg;
         w5 = w\<lparr>events := events w @
                  [EStorageClient (gcp_project_id j), EJobClient (api_endpoint j),
                   EGetBucket (bucket_id j), EBuildEgg sf, EUploadEgg ep egg, EPickle],
                store := snd (prepare_driver_callable j rt (store w))\<rparr>
     in case pickle_dumps_result sv (work_unit_in_run j rt (store w)) of
          Inl e \<Rightarrow> Some (Inl e, w5)
        | Inr pickled \<Rightarrow>
            (case upload_driver_result sv of
               Inl e \<Rightarrow>
                 Some (Inl e, emit (EUploadDriver dp (driver_script (wrapper_address sv) pickled)) w5)
             | Inr u \<Rightarrow>
                 with_temp_cluster j jid sv (in_temp_cluster j sv dp ep)
                   (emit (EUploadDriver dp (driver_script (wrapper_address sv) pickled)) w5)))"
  using assms
  by (simp add: run_def ensure_has_setup_file_def bind_def call_def ret_def emit_def
      prepare_driver_callable_in_run_def build_project_egg_def upload_egg_def
      generate_and_upload_driver_def generate_driver_script_def work_unit_in_run_def Let_def
      split: prod.splits sum.splits)

lemma before_scope_not_upload_driver_etc:
  "list_all (\<lambda>ev. before_scope ev \<and> \<not> is_upload_driver ev) evs \<Longrightarrow>
   \<not> list_ex is_upload_driver evs \<and> \<not> list_ex is_create evs \<and> \<not> list_ex is_submit evs"
  by (induction evs) (auto elim: before_scope.elims)

lemma scope_forward:
  assumes "cluster_client_result sv = Inr ()" and "create_cluster_result sv = Inr ()"
    and "cluster_future_result sv = Inr ()" and "submit_job_result sv = Inr jid"
  shows "with_temp_cluster j name sv (in_temp_cluster j sv dp ep) w =
    (case watch_then_print_log sv
            (w\<lparr>events := events w @
                 [EClusterClient (api_endpoint j),
                  ECreateCluster (gcp_project_id j) (gcp_region j)
                    (cluster_data_for (gcp_region j) name (pip_packages j) (worker_num_instances j)
                       (worker_machine_type j)),
                  EClusterResult,
                  ESubmitJob (gcp_project_id j) (gcp_region j)
                    \<lparr>placement_cluster_name = name,
                     main_python_file_uri = ''gs://'' @ bucket_id j @ ''/'' @ dp,
                     jobspec_jar_file_uris = jar_file_uris j,
                     python_file_uris = [''gs://'' @ bucket_id j @ ''/'' @ ep],
                     properties = prepare_pyspark_properties j\<rparr>]\<rparr>) of
       None \<Rightarrow> None
     | Some (r1, w1) \<Rightarrow>
         Some ((case delete_cluster_result sv of Inl e \<Rightarrow> Inl e | Inr u \<Rightarrow> r1),
               emit (EDeleteCluster (gcp_project_id j) (gcp_region j) name) w1))"
  using assms
  by (simp add: with_temp_cluster_def in_temp_cluster_def create_cluster_def
      submit_single_pyspark_job_def delete_cluster_def bind_def call_def ret_def emit_def
      try_finally_def Let_def split: option.splits sum.splits prod.splits)

lemma watch_forward:
  assumes "get_job_calls w = 0" and "first_stop (get_job_result sv) n"
  shows "watch_then_print_log sv w =
    (let w1 = w\<lparr>events := events w @ polling n @ [EGetJob], get_job_calls := Suc n\<rparr>;
         r1 = (case watch_result (get_job_result sv n) of Inl e \<Rightarrow> Inl e | Inr jb \<Rightarrow> Inr ())
     in case get_job_result sv (Suc n) of
          Inl e \<Rightarrow> Some (Inl e, polled w1)
        | Inr jb \<Rightarrow>
            (let uri = driver_output_resource_uri jb @ ''.000000000'';
                 w2 = emit (EDownloadBlob uri) (polled w1)
             in case download_blob_result sv uri of
                  Inl e \<Rightarrow> Some (Inl e, w2)
                | Inr b \<Rightarrow>
                    if decodes_as_utf8 (python sv) b then Some (r1, w2)
                    else Some (Inl (UnicodeDecodeError ''utf-8''), w2)))"
  using wait_first_stop0[OF assms]
  by (simp add: watch_then_print_log_def print_job_output_log_def get_job_once_def
      try_finally_def bind_def call_def ret_def raise_def Let_def
      split: sum.splits)

lemma outcome_trace_Some:
  "m w = Some (r, w') \<Longrightarrow> outcome m w = Some r \<and> trace m w = events w'"
  by (simp add: outcome_def trace_def)

lemma run_whole:
  assumes "setup_file j = Some sf" and "sf \<noteq> []"
    and "storage_client_result sv = Inr ()" and "job_client_result sv = Inr ()"
    and "get_bucket_result sv = Inr ()" and "build_project_egg_result sv = Inr egg"
    and "upload_egg_result sv = Inr ()"
    and "pickle_dumps_result sv (work_unit_in_run j rt h) = Inr pickled"
    and "upload_driver_result sv = Inr ()"
    and "cluster_client_result sv = Inr ()" and "create_cluster_result sv = Inr ()"
    and "cluster_future_result sv = Inr ()" and "submit_job_result sv = Inr jid"
    and "first_stop (get_job_result sv) n"
    and "get_job_result sv (Suc n) = Inr jb"
  shows "\<exists>w'. run j rt sv (start h) =
      Some (case delete_cluster_result sv of
              Inl e \<Rightarrow> Inl e
            | Inr u \<Rightarrow>
                (case download_blob_result sv (driver_output_resource_uri jb @ ''.000000000'') of
                   Inl e \<Rightarrow> Inl e
                 | Inr b \<Rightarrow>
                     if decodes_as_utf8 (python sv) b then
                       (case watch_result (get_job_result sv n) of
                          Inl e \<Rightarrow> Inl e | Inr jb' \<Rightarrow> Inr ())
                     else Inl (UnicodeDecodeError ''utf-8'')),
            w')
    \<and> events w' =
        [EStorageClient (gcp_project_id j), EJobClient (api_endpoint j),
         EGetBucket (bucket_id j), EBuildEgg sf,
         EUploadEgg (generate_internal_jobid (python sv) j (clock sv) (random_draws sv)
                       @ ''/'' @ path_name egg) egg,
         EPickle,
         EUploadDriver (generate_internal_jobid (python sv) j (clock sv) (random_draws sv)
                          @ ''/'' @ driver_filename j)
           (driver_script (wrapper_address sv) pickled),
         EClusterClient (api_endpoint j),
         ECreateCluster (gcp_project_id j) (gcp_region j)
           (cluster_data_for (gcp_region j)
              (generate_internal_jobid (python sv) j (clock sv) (random_draws sv))
              (pip_packages j) (worker_num_instances j) (worker_machine_type j)),
         EClusterResult,
         ESubmitJob (gcp_project_id j) (gcp_region j)
           \<lparr>placement_cluster_name =
              generate_internal_jobid (python sv) j (clock sv) (random_draws sv),
            main_python_file_uri =
              ''gs://'' @ bucket_id j @ ''/''
                @ generate_internal_jobid (python sv) j (clock sv) (random_draws sv)
                @ ''/'' @ driver_filename j,
            jobspec_jar_file_uris = jar_file_uris j,
            python_file_uris =
              [''gs://'' @ bucket_id j @ ''/''
                 @ generate_internal_jobid (python sv) j (clock sv) (random_draws sv)
                 @ ''/'' @ path_name egg],
            properties = prepare_pyspark_properties j\<rparr>]
        @ polling n
        @ [EGetJob, EGetJob, EDownloadBlob (driver_output_resource_uri jb @ ''.000000000''),
           EDeleteCluster (gcp_project_id j) (gcp_region j)
             (generate_internal_jobid (python sv) j (clock sv) (random_draws sv))]"
proof -
  let ?id = "generate_internal_jobid (python sv) j (clock sv) (random_draws sv)"
  let ?w6 = "emit (EUploadDriver (?id @ ''/'' @ driver_filename j) (driver_script (wrapper_address sv) pickled))
    ((start h)\<lparr>events := events (start h) @
                  [EStorageClient (gcp_project_id j), EJobClient (api_endpoint j),
                   EGetBucket (bucket_id j), EBuildEgg sf,
                   EUploadEgg (?id @ ''/'' @ path_name egg) egg, EPickle],
                store := snd (prepare_driver_callable j rt (store (start h)))\<rparr>)"
  have 1: "run j rt sv (start h) =
      with_temp_cluster j ?id sv
        (in_temp_cluster j sv (?id @ ''/'' @ driver_filename j) (?id @ ''/'' @ path_name egg)) ?w6"
    using assms(8,9)
    by (simp add: run_to_scope[OF assms(1-7)] Let_def start_def)
  let ?w10 = "?w6\<lparr>events := events ?w6 @
                 [EClusterClient (api_endpoint j),
                  ECreateCluster (gcp_project_id j) (gcp_region j)
                    (cluster_data_for (gcp_region j) ?id (pip_packages j) (worker_num_instances j)
                       (worker_machine_type j)),
                  EClusterResult,
                  ESubmitJob (gcp_project_id j) (gcp_region j)
                    \<lparr>placement_cluster_name = ?id,
                     main_python_file_uri = ''gs://'' @ bucket_id j @ ''/'' @ (?id @ ''/'' @ driver_filename j),
                     jobspec_jar_file_uris = jar_file_uris j,
                     python_file_uris = [''gs://'' @ bucket_id j @ ''/'' @ (?id @ ''/'' @ path_name egg)],
                     properties = prepare_pyspark_properties j\<rparr>]\<rparr>"
  have c: "get_job_calls ?w10 = 0" by (simp add: start_def emit_def)
  note 2 = scope_forward[OF assms(10-13), of j ?id "?id @ ''/'' @ driver_filename j"
      "?id @ ''/'' @ path_name egg" ?w6]
  note 3 = watch_forward[OF c assms(14)]
  show ?thesis
    unfolding 1 2 3
    using assms(15)
    by (simp add: Let_def emit_def polled_def start_def split: sum.splits)
qed

lemma demo_services_fields:
  "storage_client_result demo_services = Inr ()"
  "job_client_result demo_services = Inr ()"
  "get_bucket_result demo_services = Inr ()"
  "build_project_egg_result demo_services = Inr ''/project/dist/proj.egg''"
  "upload_egg_result demo_services = Inr ()"
  "pickle_dumps_result demo_services u = Inr (wu_callable u)"
  "upload_driver_result demo_services = Inr ()"
  "cluster_client_result demo_services = Inr ()"
  "create_cluster_result demo_services = Inr ()"
  "cluster_future_result demo_services = Inr ()"
  "submit_job_result demo_services = Inr ''job-1''"
  "delete_cluster_result demo_services = Inr ()"
  "download_blob_result demo_services uri = Inr ''log''"
  "decodes_as_utf8 (python demo_services) b"
  by (simp_all add: demo_services_def demo_python_def)

lemma demo_job_setup_file:
  "setup_file demo_job = Some ''/project/setup.py''" "''/project/setup.py'' \<noteq> []"
  by (simp_all add: demo_job_def)

lemma boom_first_stop: "first_stop (\<lambda>n. Inr (boom_jobs n)) 2"
  by (simp add: first_stop_def boom_jobs_def terminal_def)


lemma boom_watch_result:
  "watch_result (Inr (boom_jobs 2)) = Inl (Exception ''boom'')"
  by (simp add: boom_jobs_def)

lemma boom_services_run:
  assumes "storage_client_result sv = Inr ()" and "job_client_result sv = Inr ()"
    and "get_bucket_result sv = Inr ()" and "build_project_egg_result sv = Inr ''/project/dist/proj.egg''"
    and "upload_egg_result sv = Inr ()"
    and "\<And>u. pickle_dumps_result sv u = Inr (wu_callable u)"
    and "upload_driver_result sv = Inr ()"
    and "cluster_client_result sv = Inr ()" and "create_cluster_result sv = Inr ()"
    and "cluster_future_result sv = Inr ()" and "submit_job_result sv = Inr ''job-1''"
    and "get_job_result sv = (\<lambda>n. Inr (boom_jobs n))"
  shows "\<exists>w' pre. run demo_job rt sv (start demo_store) =
      Some (case delete_cluster_result sv of
              Inl e \<Rightarrow> Inl e
            | Inr u \<Rightarrow>
                (case download_blob_result sv ''gs://b/out.000000000'' of
                   Inl e \<Rightarrow> Inl e
                 | Inr b \<Rightarrow>
                     if decodes_as_utf8 (python sv) b then Inl (Exception ''boom'')
                     else Inl (UnicodeDecodeError ''utf-8'')),
            w')
     \<and> events w' = pre @ [EGetJob, ESleep 5, EGetJob, ESleep 5, EGetJob, EGetJob,
           EDownloadBlob ''gs://b/out.000000000'',
           EDeleteCluster (gcp_project_id demo_job) (gcp_region demo_job)
             (generate_internal_jobid (python sv) demo_job (clock sv) (random_draws sv))]
     \<and> list_ex is_create pre \<and> list_ex is_upload_egg pre"
proof -
  have fs: "first_stop (get_job_result sv) 2" using boom_first_stop assms(12) by simp
  have nx: "get_job_result sv (Suc 2) = Inr (boom_jobs 3)" using assms(12) by simp
  have p: "polling 2 = [EGetJob, ESleep 5, EGetJob, ESleep 5]" by (simp add: numeral_2_eq_2)
  have u: "driver_output_resource_uri (boom_jobs 3) @ ''.000000000'' = ''gs://b/out.000000000''"
    by (simp add: boom_jobs_def)
  have wr: "watch_result (get_job_result sv 2) = Inl (Exception ''boom'')"
    using assms(12) boom_watch_result by simp
  from run_whole[OF demo_job_setup_file assms(1-5) assms(6) assms(7-11) fs nx, of rt demo_store]
  obtain w' where r0: "run demo_job rt sv (start demo_store) =
      Some (case delete_cluster_result sv of
              Inl e \<Rightarrow> Inl e
            | Inr u \<Rightarrow>
                (case download_blob_result sv (driver_output_resource_uri (boom_jobs 3) @ ''.000000000'') of
                   Inl e \<Rightarrow> Inl e
                 | Inr b \<Rightarrow>
                     if decodes_as_utf8 (python sv) b then
                       (case watch_result (get_job_result sv 2) of
                          Inl e \<Rightarrow> Inl e | Inr jb' \<Rightarrow> Inr ())
                     else Inl (UnicodeDecodeError ''utf-8'')),
            w')"
    and ev: "take 11 (events w') @ drop 11 (events w') = events w'"
      "drop 11 (events w') = polling 2
        @ [EGetJob, EGetJob, EDownloadBlob (driver_output_resource_uri (boom_jobs 3) @ ''.000000000''),
           EDeleteCluster (gcp_project_id demo_job) (gcp_region demo_job)
             (generate_internal_jobid (python sv) demo_job (clock sv) (random_draws sv))]"
      "list_ex is_create (take 11 (events w'))" "list_ex is_upload_egg (take 11 (events w'))"
    by auto
  have r: "run demo_job rt sv (start demo_store) =
      Some (case delete_cluster_result sv of
              Inl e \<Rightarrow> Inl e
            | Inr u \<Rightarrow>
                (case download_blob_result sv ''gs://b/out.000000000'' of
                   Inl e \<Rightarrow> Inl e
                 | Inr b \<Rightarrow>
                     if decodes_as_utf8 (python sv) b then Inl (Exception ''boom'')
                     else Inl (UnicodeDecodeError ''utf-8'')),
            w')"
    using r0 unfolding u wr by (simp cong: sum.case_cong if_cong)
  have e: "events w' = take 11 (events w') @ [EGetJob, ESleep 5, EGetJob, ESleep 5, EGetJob, EGetJob,
           EDownloadBlob ''gs://b/out.000000000'',
           EDeleteCluster (gcp_project_id demo_job) (gcp_region demo_job)
             (generate_internal_jobid (python sv) demo_job (clock sv) (random_draws sv))]"
    using ev(1) unfolding ev(2) u p by simp
  from r e ev(3,4) show ?thesis by blast
qed


lemma sample_services_fields:
  "storage_client_result boom_services = Inr ()"
  "job_client_result boom_services = Inr ()"
  "get_bucket_result boom_services = Inr ()"
  "build_project_egg_result boom_services = Inr ''/project/dist/proj.egg''"
  "upload_egg_result boom_services = Inr ()"
  "pickle_dumps_result boom_services u = Inr (wu_callable u)"
  "upload_driver_result boom_services = Inr ()"
  "cluster_client_result boom_services = Inr ()"
  "create_cluster_result boom_services = Inr ()"
  "cluster_future_result boom_services = Inr ()"
  "submit_job_result boom_services = Inr ''job-1''"
  "get_job_result boom_services = (\<lambda>n. Inr (boom_jobs n))"
  "delete_cluster_result boom_services = Inr ()"
  "download_blob_result boom_services uri = Inr ''log''"
  "decodes_as_utf8 (python boom_services) b"
  by (simp_all add: boom_services_def demo_services_def demo_python_def)




lemma no_pickle_services_fields:
  "storage_client_result no_pickle_services = Inr ()"
  "job_client_result no_pickle_services = Inr ()"
  "get_bucket_result no_pickle_services = Inr ()"
  "build_project_egg_result no_pickle_services = Inr ''/project/dist/proj.egg''"
  "upload_egg_result no_pickle_services = Inr ()"
  "pickle_dumps_result no_pickle_services u = Inl (Exception ''cannot pickle'')"
  by (simp_all add: no_pickle_services_def demo_services_def)


lemma no_pickle_run:
  "\<exists>w'. run demo_job rt no_pickle_services (start demo_store)
           = Some (Inl (Exception ''cannot pickle''), w')
        \<and> events w' =
            [EStorageClient (gcp_project_id demo_job), EJobClient (api_endpoint demo_job),
             EGetBucket (bucket_id demo_job), EBuildEgg ''/project/setup.py'',
             EUploadEgg
               (generate_internal_jobid (python no_pickle_services) demo_job
                  (clock no_pickle_services) (random_draws no_pickle_services)
                  @ ''/'' @ path_name ''/project/dist/proj.egg'') ''/project/dist/proj.egg'',
             EPickle]"
  using run_to_scope[OF demo_job_setup_file no_pickle_services_fields(1-5), of rt "start demo_store"]
  by (simp add: no_pickle_services_fields(6) Let_def start_def)

section \<open>The descriptor, the run id and the wrapper\<close>
























lemma env_or_current_or_none_given: "e \<noteq> [] \<Longrightarrow> env_or_current_or_none (Some e) c = e"
  by simp






lemma prepare_driver_callable_eq:
  "prepare_driver_callable j r h =
     (\<lparr>callable = driver_callable j, args = [], kwargs = length h,
       envs = (if env j \<noteq> [] then [(''env'', env j)] else [])\<rparr>,
      h @ [AList.update ''runtime'' r (h ! driver_arguments j)])"
  by (simp add: prepare_driver_callable_def Let_def)

lemma wrapper_call_Inr:
  "wrapper_call d h environ = (Inr iv, environ') \<Longrightarrow>
   inv_callable iv = callable d \<and> inv_args iv = args d \<and> inv_kwargs iv = h ! kwargs d"
  by (auto simp: wrapper_call_def split: prod.splits option.splits)





text \<open>
  Claim C3. For every sequence of polled job statuses, the watcher returns normally exactly
  when the first terminal status observed is DONE; when it is ERROR the watcher raises an
  exception whose message is the remote status detail message; when it is CANCELLED it
  raises an exception with the fixed message \<^verbatim>\<open>Job was CANCELLED\<close>.
\<close>

theorem watcher_result_by_first_terminal_status:
  "get_job_calls w = 0 \<Longrightarrow>
   ((\<exists>j w'. wait_for_job_to_finish (\<lambda>i. Inr (jobs i)) w = Some (Inr j, w')) \<longleftrightarrow>
      (\<exists>n. first_terminal jobs n \<and> state (status (jobs n)) = DONE)) \<and>
   (\<forall>n. first_terminal jobs n \<and> state (status (jobs n)) = ERROR \<longrightarrow>
      (\<exists>w'. wait_for_job_to_finish (\<lambda>i. Inr (jobs i)) w =
         Some (Inl (Exception (details (status (jobs n)))), w'))) \<and>
   (\<forall>n. first_terminal jobs n \<and> state (status (jobs n)) = CANCELLED \<longrightarrow>
      (\<exists>w'. wait_for_job_to_finish (\<lambda>i. Inr (jobs i)) w =
         Some (Inl (Exception ''Job was CANCELLED''), w')))"
proof (intro conjI allI impI)
  assume c0: "get_job_calls w = 0"
  show "(\<exists>j w'. wait_for_job_to_finish (\<lambda>i. Inr (jobs i)) w = Some (Inr j, w')) \<longleftrightarrow>
      (\<exists>n. first_terminal jobs n \<and> state (status (jobs n)) = DONE)"
  proof
    assume "\<exists>j w'. wait_for_job_to_finish (\<lambda>i. Inr (jobs i)) w = Some (Inr j, w')"
    then obtain j w' where r: "wait_for_job_to_finish (\<lambda>i. Inr (jobs i)) w = Some (Inr j, w')"
      by blast
    from wait_some_terminal[OF r] obtain n where ft: "first_terminal jobs n"
      using first_terminal_exists by blast
    from wait_first_terminal[OF c0 ft] r have "watch_result (Inr (jobs n)) = Inr j" by simp
    then have "state (status (jobs n)) = DONE" by (simp split: if_splits)
    with ft show "\<exists>n. first_terminal jobs n \<and> state (status (jobs n)) = DONE" by blast
  next
    assume "\<exists>n. first_terminal jobs n \<and> state (status (jobs n)) = DONE"
    then obtain n where ft: "first_terminal jobs n" and d: "state (status (jobs n)) = DONE"
      by blast
    from wait_first_terminal[OF c0 ft] d
    show "\<exists>j w'. wait_for_job_to_finish (\<lambda>i. Inr (jobs i)) w = Some (Inr j, w')" by simp
  qed
next
  fix n
  assume c0: "get_job_calls w = 0"
    and h: "first_terminal jobs n \<and> state (status (jobs n)) = ERROR"
  from wait_first_terminal[OF c0 conjunct1[OF h]] h
  show "\<exists>w'. wait_for_job_to_finish (\<lambda>i. Inr (jobs i)) w =
         Some (Inl (Exception (details (status (jobs n)))), w')" by simp
next
  fix n
  assume c0: "get_job_calls w = 0"
    and h: "first_terminal jobs n \<and> state (status (jobs n)) = CANCELLED"
  from wait_first_terminal[OF c0 conjunct1[OF h]] h
  show "\<exists>w'. wait_for_job_to_finish (\<lambda>i. Inr (jobs i)) w =
         Some (Inl (Exception ''Job was CANCELLED''), w')" by simp
qed

text \<open>Witness for C3: RUNNING, RUNNING, then ERROR with details \<^verbatim>\<open>boom\<close>.\<close>

theorem watcher_result_by_first_terminal_status_witness:
  "get_job_calls empty_world = 0 \<and>
   first_terminal boom_jobs 2 \<and> state (status (boom_jobs 2)) = ERROR \<and>
   (\<exists>w'. wait_for_job_to_finish (\<lambda>i. Inr (boom_jobs i)) empty_world =
      Some (Inl (Exception ''boom''), w'))"
proof -
  have ft: "first_terminal boom_jobs 2"
    by (simp add: first_terminal_def boom_jobs_def terminal_def)
  have st: "state (status (boom_jobs 2)) = ERROR" by (simp add: boom_jobs_def)
  have dt: "details (status (boom_jobs 2)) = ''boom''" by (simp add: boom_jobs_def)
  have c0: "get_job_calls empty_world = 0" by (simp add: start_def)
  note T = watcher_result_by_first_terminal_status[OF c0, of boom_jobs]
  from T[THEN conjunct2, THEN conjunct1, rule_format, OF conjI[OF ft st]]
  have e: "\<exists>w'. wait_for_job_to_finish (\<lambda>i. Inr (boom_jobs i)) empty_world =
      Some (Inl (Exception ''boom''), w')" unfolding dt .
  show ?thesis by (intro conjI, rule c0, rule ft, rule st, rule e)
qed

text \<open>
  Claim C4, as the code has it. The watcher polls at a constant interval of 5 time-units,
  with no backoff, no attempt cap and no bound on duration. It leaves (returning or
  raising) if and only if some poll stops it: a poll that answers with a terminal status
  (DONE, ERROR or CANCELLED), or a poll whose call itself raises. When the first such poll
  is the \<open>n\<close>-th, for any \<open>n\<close>, it has made exactly \<open>n\<close> rounds of one poll followed by a
  sleep of 5, and one last poll. When no poll ever stops it, it never leaves, and it polls
  forever: after any number \<open>k\<close> of rounds it is still in the loop, having made \<open>k\<close> polls,
  each followed by a sleep of 5.
\<close>

theorem watcher_terminates_iff_poll_stops:
  "get_job_calls w = 0 \<Longrightarrow>
   ((\<exists>r. wait_for_job_to_finish get_job w = Some r) \<longleftrightarrow> (\<exists>n. stops (get_job n))) \<and>
   ((\<forall>n. \<not> stops (get_job n)) \<longrightarrow>
      wait_for_job_to_finish get_job w = None \<and>
      (\<forall>k. wait_rounds k get_job w =
         (None, w\<lparr>events := events w @ polling k, get_job_calls := k\<rparr>))) \<and>
   (\<forall>n. first_stop get_job n \<longrightarrow>
      wait_for_job_to_finish get_job w =
        Some (watch_result (get_job n),
              w\<lparr>events := events w @ polling n @ [EGetJob], get_job_calls := Suc n\<rparr>))"
proof (intro conjI allI impI)
  assume c0: "get_job_calls w = 0"
  show "(\<exists>r. wait_for_job_to_finish get_job w = Some r) \<longleftrightarrow> (\<exists>n. stops (get_job n))"
  proof
    assume "\<exists>r. wait_for_job_to_finish get_job w = Some r"
    then obtain r where "wait_for_job_to_finish get_job w = Some r" ..
    from wait_returns_stops[OF this] show "\<exists>n. stops (get_job n)" by blast
  next
    assume "\<exists>n. stops (get_job n)"
    then obtain n where "first_stop get_job n" using first_stop_exists by blast
    from wait_first_stop0[OF c0 this]
    show "\<exists>r. wait_for_job_to_finish get_job w = Some r" by blast
  qed
next
  assume ns: "\<forall>n. \<not> stops (get_job n)"
  show "wait_for_job_to_finish get_job w = None"
  proof (cases "wait_for_job_to_finish get_job w")
    case None
    then show ?thesis .
  next
    case (Some r)
    from wait_returns_stops[OF this] ns show ?thesis by blast
  qed
next
  fix k
  assume c0: "get_job_calls w = 0" and ns: "\<forall>n. \<not> stops (get_job n)"
  from ns have "\<forall>i. get_job_calls w \<le> i \<and> i < get_job_calls w + k \<longrightarrow> \<not> stops (get_job i)"
    by simp
  from wait_rounds_running[OF this] c0
  show "wait_rounds k get_job w = (None, w\<lparr>events := events w @ polling k, get_job_calls := k\<rparr>)"
    by simp
next
  fix n
  assume c0: "get_job_calls w = 0" and fs: "first_stop get_job n"
  from wait_first_stop0[OF c0 fs]
  show "wait_for_job_to_finish get_job w =
        Some (watch_result (get_job n),
              w\<lparr>events := events w @ polling n @ [EGetJob], get_job_calls := Suc n\<rparr>)" .
qed

text \<open>Witness for C4: PENDING, RUNNING, RUNNING, then DONE at the fourth poll.\<close>

theorem watcher_terminates_iff_poll_stops_witness:
  "get_job_calls empty_world = 0 \<and> first_stop done_jobs 3 \<and>
   wait_for_job_to_finish done_jobs empty_world =
     Some (Inr \<lparr>status = \<lparr>state = DONE, details = []\<rparr>, driver_output_resource_uri = ''gs://b/out''\<rparr>,
           \<lparr>events = [EGetJob, ESleep 5, EGetJob, ESleep 5, EGetJob, ESleep 5, EGetJob],
            get_job_calls = 4, store = []\<rparr>)"
proof -
  have c0: "get_job_calls empty_world = 0" by (simp add: start_def)
  have fs: "first_stop done_jobs 3"
    by (simp add: first_stop_def done_jobs_def terminal_def)
  have p: "polling 3 = [EGetJob, ESleep 5, EGetJob, ESleep 5, EGetJob, ESleep 5]"
    by (simp add: numeral_3_eq_3)
  have r: "watch_result (done_jobs 3) =
      Inr \<lparr>status = \<lparr>state = DONE, details = []\<rparr>, driver_output_resource_uri = ''gs://b/out''\<rparr>"
    by (simp add: done_jobs_def)
  have w: "empty_world\<lparr>events := events empty_world @ polling 3 @ [EGetJob], get_job_calls := Suc 3\<rparr>
      = \<lparr>events = [EGetJob, ESleep 5, EGetJob, ESleep 5, EGetJob, ESleep 5, EGetJob],
            get_job_calls = 4, store = []\<rparr>"
    by (simp add: p start_def)
  note T = watcher_terminates_iff_poll_stops[OF c0, of done_jobs]
  from T[THEN conjunct2, THEN conjunct2, rule_format, OF fs]
  have e: "wait_for_job_to_finish done_jobs empty_world =
     Some (Inr \<lparr>status = \<lparr>state = DONE, details = []\<rparr>, driver_output_resource_uri = ''gs://b/out''\<rparr>,
           \<lparr>events = [EGetJob, ESleep 5, EGetJob, ESleep 5, EGetJob, ESleep 5, EGetJob],
            get_job_calls = 4, store = []\<rparr>)"
    unfolding r w .
  show ?thesis by (intro conjI, rule c0, rule fs, rule e)
qed

text \<open>
  Counterexample to C4 as stated (the watcher terminates only if some polled status is
  terminal): the first poll answers RUNNING, the second poll raises; the watcher leaves
  with that exception after two polls, and no polled status was terminal.
\<close>

theorem watcher_leaves_without_terminal_status:
  "flaky_jobs 0 = Inr \<lparr>status = \<lparr>state = RUNNING, details = []\<rparr>, driver_output_resource_uri = ''gs://b/out''\<rparr> \<and>
   flaky_jobs 1 = Inl (Exception ''503 unavailable'') \<and>
   wait_for_job_to_finish flaky_jobs empty_world =
     Some (Inl (Exception ''503 unavailable''),
           \<lparr>events = [EGetJob, ESleep 5, EGetJob], get_job_calls = 2, store = []\<rparr>) \<and>
   \<not> ((\<exists>r. wait_for_job_to_finish flaky_jobs empty_world = Some r) \<longleftrightarrow>
       (\<exists>n j. flaky_jobs n = Inr j \<and> terminal (state (status j))))"
proof -
  have a0: "flaky_jobs 0 = Inr \<lparr>status = \<lparr>state = RUNNING, details = []\<rparr>, driver_output_resource_uri = ''gs://b/out''\<rparr>"
    by (simp add: flaky_jobs_def)
  have a1: "flaky_jobs 1 = Inl (Exception ''503 unavailable'')"
    by (simp add: flaky_jobs_def)
  have s0: "\<not> stops (flaky_jobs (get_job_calls empty_world))"
    by (simp add: flaky_jobs_def start_def terminal_def)
  have s1: "stops (flaky_jobs (get_job_calls (emit (ESleep 5) (polled empty_world))))"
    by (simp add: flaky_jobs_def start_def emit_def polled_def)
  have run: "wait_for_job_to_finish flaky_jobs empty_world =
     Some (Inl (Exception ''503 unavailable''),
           \<lparr>events = [EGetJob, ESleep 5, EGetJob], get_job_calls = 2, store = []\<rparr>)"
    unfolding wait_continue[where get_job = flaky_jobs and w = empty_world, OF s0]
      wait_stop[where get_job = flaky_jobs and w = "emit (ESleep 5) (polled empty_world)", OF s1]
    by (simp add: flaky_jobs_def start_def emit_def polled_def)
  have none: "\<not> (\<exists>n j. flaky_jobs n = Inr j \<and> terminal (state (status j)))"
    by (auto simp: flaky_jobs_def terminal_def split: if_splits)
  from run have "\<exists>r. wait_for_job_to_finish flaky_jobs empty_world = Some r" by (rule exI)
  with none have "\<not> ((\<exists>r. wait_for_job_to_finish flaky_jobs empty_world = Some r) \<longleftrightarrow>
       (\<exists>n j. flaky_jobs n = Inr j \<and> terminal (state (status j))))" by simp
  with a0 a1 run show ?thesis by (intro conjI)
qed

section \<open>Claims about the run\<close>

text \<open>
  Claim C1. For every run in which cluster creation is attempted, the teardown
  (\<^verbatim>\<open>_delete_cluster\<close>) is invoked exactly once on every exit path of the scope, before
  \<^verbatim>\<open>run\<close> returns or the exception propagates: whenever the run ends, with any outcome
  \<open>r\<close> (normal completion, or an exception of the creation, of the submission, of the
  polling or of the log retrieval), and the creation was requested, the events of the run
  are: events without creation or deletion, the creation of the cluster named by the run
  id, events without deletion, and last the deletion of that cluster. So the events have
  exactly one deletion.
\<close>

theorem teardown_exactly_once:
  assumes "run j rt sv (start h) = Some (r, w')"
    and "list_ex is_create (events w')"
  shows "\<exists>pre mid.
      events w' =
        pre @ ECreateCluster (gcp_project_id j) (gcp_region j)
                (cluster_data_for (gcp_region j)
                   (generate_internal_jobid (python sv) j (clock sv) (random_draws sv))
                   (pip_packages j) (worker_num_instances j) (worker_machine_type j))
          # mid
          @ [EDeleteCluster (gcp_project_id j) (gcp_region j)
               (generate_internal_jobid (python sv) j (clock sv) (random_draws sv))]
      \<and> \<not> list_ex is_create pre \<and> \<not> list_ex is_delete pre \<and> \<not> list_ex is_delete mid
      \<and> length (filter is_delete (events w')) = 1"
  using assms(1)
proof (cases rule: run_cases)
  case (early pre e)
  then have "events w' = pre" by (simp add: start_def)
  with before_scope_not_cluster[OF early(2)] assms(2) show ?thesis by simp
next
  case (scope f w1 pre dp ep)
  let ?j = "j\<lparr>setup_file := f\<rparr>"
  let ?id = "generate_internal_jobid (python sv) j (clock sv) (random_draws sv)"
  let ?d = "cluster_data_for (gcp_region j) ?id (pip_packages j) (worker_num_instances j)
      (worker_machine_type j)"
  have pre: "events w1 = pre" using scope(1) by (simp add: start_def)
  note np = before_scope_not_cluster[OF scope(2)]
  from scope(3) show ?thesis
  proof (cases rule: with_temp_cluster_cases)
    case (no_client e)
    then have "events w' = pre @ [EClusterClient (api_endpoint ?j)]" using pre by simp
    with np assms(2) show ?thesis by simp
  next
    case (scope r1 w2)
    from create_then_body_events[OF scope(1) adds_inside_scope] obtain mid where
      m: "events w2 = events (emit (EClusterClient (api_endpoint ?j)) w1)
            @ ECreateCluster (gcp_project_id ?j) (gcp_region ?j)
                (cluster_data_for (gcp_region ?j) ?id (pip_packages ?j) (worker_num_instances ?j)
                   (worker_machine_type ?j)) # mid"
        "list_all inside_scope mid" by blast
    let ?pre = "pre @ [EClusterClient (api_endpoint ?j)]"
    have ev: "events w' = ?pre @ ECreateCluster (gcp_project_id j) (gcp_region j) ?d # mid
        @ [EDeleteCluster (gcp_project_id j) (gcp_region j) ?id]"
      using m(1) scope(2) pre by (simp add: emit_def)
    have p: "\<not> list_ex is_create ?pre" "\<not> list_ex is_delete ?pre" using np by simp_all
    note nm = inside_scope_not_delete[OF m(2)]
    have "length (filter is_delete (events w')) = 1"
      using p(2) nm unfolding ev by (simp add: list_ex_iff filter_empty_conv)
    with ev p nm show ?thesis by blast
  qed
qed

text \<open>
  Witness for C1: the job ends in ERROR with details \<^verbatim>\<open>boom\<close>; the run raises that error
  and has deleted the cluster once.
\<close>

theorem teardown_exactly_once_witness:
  "\<exists>w'. run demo_job ''2024-01-01'' boom_services (start demo_store)
           = Some (Inl (Exception ''boom''), w')
        \<and> list_ex is_create (events w')
        \<and> length (filter is_delete (events w')) = 1"
proof -
  note F = sample_services_fields
  from boom_services_run[of boom_services, OF F(1-5) F(6) F(7-12), of "''2024-01-01''"]
  obtain w' pre where
    r: "run demo_job ''2024-01-01'' boom_services (start demo_store) = Some (Inl (Exception ''boom''), w')"
    and c: "list_ex is_create (events w')"
    by (auto simp: F(13-15))
  from teardown_exactly_once[OF r c]
  have "length (filter is_delete (events w')) = 1" by blast
  with r c show ?thesis by blast
qed







text \<open>
  Claim C8, as the code has it. The work unit is pickled in
  \<^verbatim>\<open>generate_and_upload_driver\<close>, after the egg has been built and uploaded. For every
  work unit whose serialization fails, the run ends with an error, and no driver script has
  been uploaded, no cluster creation requested and no job submitted. When the steps before
  the serialization succeed, the error is the serialization failure, and the bucket has
  been fetched and the egg uploaded by then.
\<close>

theorem pickling_failure_aborts_before_cluster:
  assumes "pickle_dumps_result sv (work_unit_in_run j rt h) = Inl e"
  shows "(\<exists>e' w'. run j rt sv (start h) = Some (Inl e', w')
            \<and> \<not> list_ex is_upload_driver (events w') \<and> \<not> list_ex is_create (events w')
            \<and> \<not> list_ex is_submit (events w'))
       \<and> (\<forall>sf egg. setup_file j = Some sf \<and> sf \<noteq> []
              \<and> storage_client_result sv = Inr () \<and> job_client_result sv = Inr ()
              \<and> get_bucket_result sv = Inr () \<and> build_project_egg_result sv = Inr egg
              \<and> upload_egg_result sv = Inr ()
            \<longrightarrow> (\<exists>w'. run j rt sv (start h) = Some (Inl e, w')
                   \<and> events w' =
                       [EStorageClient (gcp_project_id j), EJobClient (api_endpoint j),
                        EGetBucket (bucket_id j), EBuildEgg sf,
                        EUploadEgg
                          (generate_internal_jobid (python sv) j (clock sv) (random_draws sv)
                             @ ''/'' @ path_name egg) egg,
                        EPickle]))"
proof (intro conjI allI impI)
  have "\<exists>e' w'. run j rt sv (start h) = Some (Inl e', w')
      \<and> list_all (\<lambda>ev. before_scope ev \<and> \<not> is_upload_driver ev) (events w')"
    using assms
    by (auto simp: run_def ensure_has_setup_file_def bind_def call_def ret_def raise_def emit_def
      prepare_driver_callable_in_run_def build_project_egg_def upload_egg_def
      generate_and_upload_driver_def generate_driver_script_def work_unit_in_run_def Let_def
      start_def
      split: prod.splits sum.splits option.splits)
  then show "\<exists>e' w'. run j rt sv (start h) = Some (Inl e', w')
            \<and> \<not> list_ex is_upload_driver (events w') \<and> \<not> list_ex is_create (events w')
            \<and> \<not> list_ex is_submit (events w')"
    using before_scope_not_upload_driver_etc by blast
next
  fix sf egg
  assume a: "setup_file j = Some sf \<and> sf \<noteq> []
              \<and> storage_client_result sv = Inr () \<and> job_client_result sv = Inr ()
              \<and> get_bucket_result sv = Inr () \<and> build_project_egg_result sv = Inr egg
              \<and> upload_egg_result sv = Inr ()"
  then have "run j rt sv (start h) =
      Some (Inl e, (start h)\<lparr>events := events (start h) @
                  [EStorageClient (gcp_project_id j), EJobClient (api_endpoint j),
                   EGetBucket (bucket_id j), EBuildEgg sf,
                   EUploadEgg (generate_internal_jobid (python sv) j (clock sv) (random_draws sv)
                             @ ''/'' @ path_name egg) egg, EPickle],
                store := snd (prepare_driver_callable j rt (store (start h)))\<rparr>)"
    using assms by (simp add: run_to_scope[where sf = sf and egg = egg] Let_def start_def)
  then show "\<exists>w'. run j rt sv (start h) = Some (Inl e, w')
                   \<and> events w' =
                       [EStorageClient (gcp_project_id j), EJobClient (api_endpoint j),
                        EGetBucket (bucket_id j), EBuildEgg sf,
                        EUploadEgg
                          (generate_internal_jobid (python sv) j (clock sv) (random_draws sv)
                             @ ''/'' @ path_name egg) egg,
                        EPickle]"
    by (simp add: start_def)
qed

text \<open>
  Counterexample to C8 as stated (no blob upload has occurred): the pickler fails, the run
  raises its error, and the egg has been uploaded.
\<close>

theorem egg_uploaded_before_pickling_fails:
  "outcome (run demo_job ''2024-01-01'' no_pickle_services) (start demo_store)
     = Some (Inl (Exception ''cannot pickle''))
   \<and> list_ex is_upload_egg (trace (run demo_job ''2024-01-01'' no_pickle_services) (start demo_store))"
proof -
  from no_pickle_run[of "''2024-01-01''"] obtain w' where
    "run demo_job ''2024-01-01'' no_pickle_services (start demo_store)
           = Some (Inl (Exception ''cannot pickle''), w')"
    and "list_ex is_upload_egg (events w')"
    by auto
  then show ?thesis by (simp add: outcome_def trace_def)
qed

text \<open>Witness for C8: the same run.\<close>

theorem pickling_failure_aborts_before_cluster_witness:
  "pickle_dumps_result no_pickle_services (work_unit_in_run demo_job ''2024-01-01'' demo_store)
     = Inl (Exception ''cannot pickle'')
   \<and> (\<exists>e' w'. run demo_job ''2024-01-01'' no_pickle_services (start demo_store) = Some (Inl e', w')
         \<and> \<not> list_ex is_upload_driver (events w') \<and> \<not> list_ex is_create (events w')
         \<and> \<not> list_ex is_submit (events w'))"
proof -
  have p: "pickle_dumps_result no_pickle_services (work_unit_in_run demo_job ''2024-01-01'' demo_store)
     = Inl (Exception ''cannot pickle'')"
    by (rule no_pickle_services_fields(6))
  from pickling_failure_aborts_before_cluster[OF p, THEN conjunct1] p
  show ?thesis by (rule conjI[rotated])
qed

section \<open>Claims about the descriptor\<close>



text \<open>
  Claim C9. For every runtime argument \<open>r\<close>, the keyword arguments bound into the driver
  wrapper are the descriptor's driver arguments with the key \<^verbatim>\<open>runtime\<close> mapped to \<open>r\<close>,
  which overwrites an entry that the caller supplied under that key; they are what the
  wrapper passes to the callable, with no positional arguments, and what a run pickles. The
  wrapper's dict is a new object: the descriptor's own dict, and every dict that existed
  before, is unchanged.
\<close>

theorem driver_kwargs_runtime_overwritten:
  assumes "driver_arguments j < length h" and "prepare_driver_callable j r h = (d, h')"
  shows "h' ! kwargs d = AList.update ''runtime'' r (h ! driver_arguments j)
       \<and> map_of (h' ! kwargs d) = (map_of (h ! driver_arguments j))(''runtime'' \<mapsto> r)
       \<and> kwargs d \<noteq> driver_arguments j
       \<and> h' ! driver_arguments j = h ! driver_arguments j
       \<and> (\<forall>i<length h. h' ! i = h ! i)
       \<and> wu_kwargs (work_unit_in_run j r h) = AList.update ''runtime'' r (h ! driver_arguments j)
       \<and> (\<forall>environ iv environ'. wrapper_call d h' environ = (Inr iv, environ') \<longrightarrow>
             inv_callable iv = driver_callable j \<and> inv_args iv = []
             \<and> inv_kwargs iv = AList.update ''runtime'' r (h ! driver_arguments j))"
proof -
  from assms(2) have d: "d = \<lparr>callable = driver_callable j, args = [], kwargs = length h,
       envs = (if env j \<noteq> [] then [(''env'', env j)] else [])\<rparr>"
    and h': "h' = h @ [AList.update ''runtime'' r (h ! driver_arguments j)]"
    by (simp_all add: prepare_driver_callable_eq)
  have k: "h' ! kwargs d = AList.update ''runtime'' r (h ! driver_arguments j)"
    by (simp add: d h')
  have m: "map_of (h' ! kwargs d) = (map_of (h ! driver_arguments j))(''runtime'' \<mapsto> r)"
    unfolding k by (rule update_conv')
  have ne: "kwargs d \<noteq> driver_arguments j" using assms(1) by (simp add: d)
  have same: "\<forall>i<length h. h' ! i = h ! i" by (simp add: h' nth_append)
  have own: "h' ! driver_arguments j = h ! driver_arguments j" using same assms(1) by simp
  have wu: "wu_kwargs (work_unit_in_run j r h) = AList.update ''runtime'' r (h ! driver_arguments j)"
    by (simp add: work_unit_in_run_def prepare_driver_callable_eq work_unit_of_def)
  have call: "\<forall>environ iv environ'. wrapper_call d h' environ = (Inr iv, environ') \<longrightarrow>
             inv_callable iv = driver_callable j \<and> inv_args iv = []
             \<and> inv_kwargs iv = AList.update ''runtime'' r (h ! driver_arguments j)"
    using wrapper_call_Inr[of d h'] k by (auto simp: d)
  from k m ne own same wu call show ?thesis by blast
qed

text \<open>
  Witness for C9: the caller's dict has an entry \<^verbatim>\<open>runtime\<close> already; the wrapper's dict
  has the run's value under that key, and the caller's dict is as before.
\<close>

theorem driver_kwargs_runtime_overwritten_witness:
  "driver_arguments demo_job < length demo_store
   \<and> prepare_driver_callable demo_job ''2024-01-01'' demo_store
       = (\<lparr>callable = ''main'', args = [], kwargs = 1, envs = [(''env'', ''dev'')]\<rparr>,
          [[(''table'', ''t1''), (''runtime'', ''caller'')],
           [(''table'', ''t1''), (''runtime'', ''2024-01-01'')]])
   \<and> map_of ([[(''table'', ''t1''), (''runtime'', ''caller'')],
               [(''table'', ''t1''), (''runtime'', ''2024-01-01'')]] ! 1)
       = (map_of (demo_store ! 0))(''runtime'' \<mapsto> ''2024-01-01'')
   \<and> [[(''table'', ''t1''), (''runtime'', ''caller'')],
        [(''table'', ''t1''), (''runtime'', ''2024-01-01'')]] ! 0 = demo_store ! 0"
proof -
  have a: "driver_arguments demo_job < length demo_store"
    by (simp add: demo_job_def demo_store_def)
  have p: "prepare_driver_callable demo_job ''2024-01-01'' demo_store
       = (\<lparr>callable = ''main'', args = [], kwargs = 1, envs = [(''env'', ''dev'')]\<rparr>,
          [[(''table'', ''t1''), (''runtime'', ''caller'')],
           [(''table'', ''t1''), (''runtime'', ''2024-01-01'')]])"
    by (simp add: prepare_driver_callable_eq demo_job_def demo_store_def)
  have da: "driver_arguments demo_job = 0" by (simp add: demo_job_def)
  note T = driver_kwargs_runtime_overwritten[OF a p]
  from T[THEN conjunct2, THEN conjunct1]
  have m: "map_of ([[(''table'', ''t1''), (''runtime'', ''caller'')],
               [(''table'', ''t1''), (''runtime'', ''2024-01-01'')]] ! 1)
       = (map_of (demo_store ! 0))(''runtime'' \<mapsto> ''2024-01-01'')"
    unfolding da by simp
  from T[THEN conjunct2, THEN conjunct2, THEN conjunct2, THEN conjunct1]
  have o: "[[(''table'', ''t1''), (''runtime'', ''caller'')],
        [(''table'', ''t1''), (''runtime'', ''2024-01-01'')]] ! 0 = demo_store ! 0"
    unfolding da .
  from a p m o show ?thesis by (intro conjI)
qed



end
